theory Spec2Isabelle
  imports Main "HOL-Library.Word"
begin

section \<open>Errors\<close>

text \<open>
  Go error values. \<open>Wrapped msg e\<close> is \<open>fmt.Errorf(msg + ": %w", e)\<close>, \<open>ErrorsNew msg\<close>
  is \<open>errors.New(msg)\<close>, \<open>Errno n\<close> a raw \<open>syscall.Errno\<close>, and \<open>External\<close> an error
  produced by a collaborator outside the two files (the unit manager, the cgroup
  filesystem helpers, the ebpf library). \<open>RuntimePanic\<close> is not an error value: it
  marks a Go runtime panic (index or slice bound out of range) where one function
  must report it through its result.
\<close>

datatype error =
    ErrV1NoUnified
  | ErrSubsystemDoesNotExist
  | Errno nat
  | Wrapped string error
  | ErrorsNew string
  | External string
  | RuntimePanic string

definition ENOSPC :: nat where
  "ENOSPC = 28"

section \<open>Device-filter attacher (package ebpf)\<close>

subsection \<open>Kernel interface\<close>

text \<open>A \<open>*ebpf.Program\<close> handle, and the pre-assembled \<open>asm.Instructions\<close>.\<close>

datatype program = Program nat

type_synonym instructions = "nat list"

text \<open>
  What one \<open>BPF_PROG_QUERY\<close> syscall leaves behind: the errno, the \<open>ProgCnt\<close> field the
  kernel wrote back into the query structure, and the identifiers it wrote into the
  caller's buffer.
\<close>

record query_response =
  q_errno :: nat
  q_ProgCnt :: "32 word"
  q_ids :: "32 word list"

text \<open>The kernel and library calls of the file, in the order they were made.\<close>

datatype bpf_event =
    Setrlimit
  | ProgQuery int nat
  | ProgramFromID "32 word"
  | ProgLoad
  | RawAttach int program "program option"
  | RawDetach int program
  | Warnf nat

text \<open>
  \<open>RawAttach dirFd prog replace\<close> is \<open>link.RawAttachProgram\<close> with \<open>Target = dirFd\<close>,
  \<open>Program = prog\<close>, \<open>Replace = replace\<close> (\<open>None\<close> for a nil pointer); the attach type
  and the flag \<open>BPF_F_ALLOW_MULTI\<close> are the same in every call.
\<close>

text \<open>
  The collaborators. \<open>bpf_prog_query i\<close> is the kernel's answer to the \<open>i\<close>-th query
  (counted from 0); the other calls answer from the calls made so far.
\<close>

record bpf_env =
  bpf_prog_query :: "nat \<Rightarrow> query_response"
  NewProgramFromID :: "32 word \<Rightarrow> error + program"
  NewProgram :: "bpf_event list \<Rightarrow> instructions \<Rightarrow> string \<Rightarrow> error + program"
  RawAttachProgram :: "bpf_event list \<Rightarrow> program \<Rightarrow> program option \<Rightarrow> error option"
  RawDetachProgram :: "bpf_event list \<Rightarrow> program \<Rightarrow> error option"

subsection \<open>findAttachedCgroupDeviceFilters\<close>

text \<open>
  The loop \<open>for idx, progId := range progIds\<close>: each identifier is turned into a
  handle, and the first failure is returned wrapped.
\<close>

fun programs_from_ids ::
  "bpf_env \<Rightarrow> 32 word list \<Rightarrow> bpf_event list \<Rightarrow> (error + program list) \<times> bpf_event list" where
  "programs_from_ids K [] lg = (Inr [], lg)"
| "programs_from_ids K (progId # rest) lg =
     (case NewProgramFromID K progId of
        Inl err \<Rightarrow> (Inl (Wrapped ''cannot fetch program from id'' err), lg @ [ProgramFromID progId])
      | Inr p \<Rightarrow>
          (case programs_from_ids K rest (lg @ [ProgramFromID progId]) of
             (Inl e, lg') \<Rightarrow> (Inl e, lg')
           | (Inr ps, lg') \<Rightarrow> (Inr (p # ps), lg')))"

text \<open>
  The buffer \<open>progIds\<close> after the syscall: \<open>size\<close> slots, zero where the kernel wrote
  nothing.
\<close>

definition filled_buffer :: "nat \<Rightarrow> 32 word list \<Rightarrow> 32 word list" where
  "filled_buffer n written = take n (written @ replicate n 0)"

text \<open>
  The retry loop. Every iteration issues one query and either returns or increments
  \<open>retries\<close>, so the query issued when \<open>retries = i\<close> is the \<open>i\<close>-th one.
  \<open>&progIds[0]\<close> panics on an empty buffer, and \<open>progIds[:size]\<close> panics when the new
  \<open>size\<close> exceeds the buffer's capacity.
\<close>

function find_loop ::
  "bpf_env \<Rightarrow> int \<Rightarrow> nat \<Rightarrow> nat \<Rightarrow> bpf_event list \<Rightarrow> (error + program list) \<times> bpf_event list" where
  "find_loop K dirFd sz retries lg =
     (if retries < 10 then
        (if sz = 0 then (Inl (RuntimePanic ''index out of range''), lg)
         else if q_errno (bpf_prog_query K retries) \<noteq> 0 then
           (if q_errno (bpf_prog_query K retries) = ENOSPC then
              find_loop K dirFd (unat (q_ProgCnt (bpf_prog_query K retries))) (Suc retries)
                (lg @ [ProgQuery dirFd sz])
            else (Inl (Wrapped ''bpf_prog_query(BPF_CGROUP_DEVICE) failed''
                        (Errno (q_errno (bpf_prog_query K retries)))),
                  lg @ [ProgQuery dirFd sz]))
         else if sz < unat (q_ProgCnt (bpf_prog_query K retries)) then
           (Inl (RuntimePanic ''slice bounds out of range''), lg @ [ProgQuery dirFd sz])
         else programs_from_ids K
                (take (unat (q_ProgCnt (bpf_prog_query K retries)))
                   (filled_buffer sz (q_ids (bpf_prog_query K retries))))
                (lg @ [ProgQuery dirFd sz]))
      else (Inl (ErrorsNew ''could not get complete list of CGROUP_DEVICE programs''), lg))"
  by pat_completeness auto
termination
  by (relation "measure (\<lambda>(K, dirFd, sz, retries, lg). 10 - retries)") auto

definition findAttachedCgroupDeviceFilters ::
  "bpf_env \<Rightarrow> int \<Rightarrow> bpf_event list \<Rightarrow> (error + program list) \<times> bpf_event list" where
  "findAttachedCgroupDeviceFilters K dirFd lg = find_loop K dirFd 64 0 lg"


subsection \<open>LoadAttachCgroupDeviceFilter\<close>

text \<open>
  The returned \<open>func() error\<close>: either \<open>nilCloser\<close> or the closure built after the
  attach, which captures \<open>dirFd\<close> and the new program.
\<close>

datatype closer = nilCloser | detachCloser int program

fun run_closer :: "bpf_env \<Rightarrow> closer \<Rightarrow> bpf_event list \<Rightarrow> error option \<times> bpf_event list" where
  "run_closer K nilCloser lg = (None, lg)"
| "run_closer K (detachCloser dirFd prog) lg =
     (case RawDetachProgram K lg prog of
        Some err \<Rightarrow> (Some (Wrapped ''failed to call BPF_PROG_DETACH (BPF_CGROUP_DEVICE)'' err),
                     lg @ [RawDetach dirFd prog])
      | None \<Rightarrow> (None, lg @ [RawDetach dirFd prog]))"

text \<open>The loop \<open>for _, oldProg := range oldProgs\<close>, which returns at the first failed detach.\<close>

fun detach_old ::
  "bpf_env \<Rightarrow> int \<Rightarrow> program list \<Rightarrow> bpf_event list \<Rightarrow> error option \<times> bpf_event list" where
  "detach_old K dirFd [] lg = (None, lg)"
| "detach_old K dirFd (oldProg # rest) lg =
     (case RawDetachProgram K lg oldProg of
        Some err \<Rightarrow>
          (Some (Wrapped ''failed to call BPF_PROG_DETACH (BPF_CGROUP_DEVICE) on old filter program'' err),
           lg @ [RawDetach dirFd oldProg])
      | None \<Rightarrow> detach_old K dirFd rest (lg @ [RawDetach dirFd oldProg]))"

datatype load_result = Panicked string | Returned closer "error option"

text \<open>\<open>replaceProg\<close>: the old program when there is exactly one, nil otherwise.\<close>

definition replaceProg :: "program list \<Rightarrow> program option" where
  "replaceProg oldProgs = (if length oldProgs = 1 then Some (hd oldProgs) else None)"

definition attach_and_clean ::
  "bpf_env \<Rightarrow> int \<Rightarrow> program list \<Rightarrow> program \<Rightarrow> bpf_event list \<Rightarrow> load_result \<times> bpf_event list" where
  "attach_and_clean K dirFd oldProgs prog lg =
     (case RawAttachProgram K lg prog (replaceProg oldProgs) of
        Some err \<Rightarrow>
          (Returned nilCloser
             (Some (Wrapped ''failed to call BPF_PROG_ATTACH (BPF_CGROUP_DEVICE, BPF_F_ALLOW_MULTI)'' err)),
           lg @ [RawAttach dirFd prog (replaceProg oldProgs)])
      | None \<Rightarrow>
          (if 1 < length oldProgs then
             (case detach_old K dirFd oldProgs
                     (lg @ [RawAttach dirFd prog (replaceProg oldProgs), Warnf (length oldProgs)]) of
                (Some err, lg') \<Rightarrow> (Returned (detachCloser dirFd prog) (Some err), lg')
              | (None, lg') \<Rightarrow> (Returned (detachCloser dirFd prog) None, lg'))
           else (Returned (detachCloser dirFd prog) None,
                 lg @ [RawAttach dirFd prog (replaceProg oldProgs)])))"

definition LoadAttachCgroupDeviceFilter ::
  "bpf_env \<Rightarrow> instructions \<Rightarrow> string \<Rightarrow> int \<Rightarrow> bpf_event list \<Rightarrow> load_result \<times> bpf_event list" where
  "LoadAttachCgroupDeviceFilter K insts license dirFd lg =
     (case findAttachedCgroupDeviceFilters K dirFd (lg @ [Setrlimit]) of
        (Inl (RuntimePanic msg), lg1) \<Rightarrow> (Panicked msg, lg1)
      | (Inl err, lg1) \<Rightarrow> (Returned nilCloser (Some err), lg1)
      | (Inr oldProgs, lg1) \<Rightarrow>
          (case NewProgram K lg1 insts license of
             Inl err \<Rightarrow> (Returned nilCloser (Some err), lg1 @ [ProgLoad])
           | Inr prog \<Rightarrow> attach_and_clean K dirFd oldProgs prog (lg1 @ [ProgLoad])))"

section \<open>Legacy systemd cgroup manager (package systemd, v1.go)\<close>

subsection \<open>Data\<close>

datatype FreezerState = Undefined | Frozen | Thawed

text \<open>
  A \<open>systemdDbus.Property\<close>: a name and a typed value (a string, a list of strings, a
  boolean, a 64-bit unsigned integer, a list of 32-bit integers, or a value built by
  one of the property helpers).
\<close>

datatype prop_value =
    PString string
  | PStrings "string list"
  | PBool bool
  | PUint64 "64 word"
  | PUint32s "32 word list"
  | POther string

record property =
  prop_Name :: string
  prop_Value :: prop_value

text \<open>
  Modelled from the spec: \<open>newProp\<close>, defined in another file of the package, pairs a
  name with a value.
\<close>

definition newProp :: "string \<Rightarrow> prop_value \<Rightarrow> property" where
  "newProp name units = \<lparr>prop_Name = name, prop_Value = units\<rparr>"

text \<open>
  \<open>configs.Resources\<close>, the fields the file reads. \<open>Memory\<close>, \<open>CpuQuota\<close> and
  \<open>PidsLimit\<close> are \<open>int64\<close> (read as signed), \<open>CpuShares\<close> and \<open>CpuPeriod\<close> are
  \<open>uint64\<close>, \<open>BlkioWeight\<close> is \<open>uint16\<close>. \<open>Unified\<close> is a Go map that may be nil.
\<close>

record Resources =
  Devices :: "string list"
  Memory :: "64 word"
  CpuShares :: "64 word"
  CpuQuota :: "64 word"
  CpuPeriod :: "64 word"
  BlkioWeight :: "16 word"
  PidsLimit :: "64 word"
  CpusetCpus :: string
  CpusetMems :: string
  Freezer :: FreezerState
  Unified :: "(string \<rightharpoonup> string) option"

text \<open>\<open>configs.Cgroup\<close>; \<open>Paths\<close> is a Go map that may be nil.\<close>

record Cgroup =
  Name :: string
  Parent :: string
  Paths :: "(string \<rightharpoonup> string) option"
  cg_Resources :: Resources
  SkipDevices :: bool
  SystemdProps :: "property list"

text \<open>\<open>cgroups.Stats\<close>, kept abstract: the entries the collectors have added.\<close>

type_synonym Stats = "(string \<times> string) list"

text \<open>
  The calls the manager makes on its mutex, on the unit manager, on the cgroup
  filesystem and on the logger, in the order they were made.
\<close>

datatype event =
    MuLock
  | MuUnlock
  | StartUnit string "property list"
  | StopUnit string
  | SetUnitProperties string "property list"
  | ParseCgroupFile string
  | EnterPid "string \<rightharpoonup> string" int
  | RemovePaths "string \<rightharpoonup> string"
  | MkdirAll string
  | WriteCgroupProc string int
  | CpusetApplyDir string int
  | FreezerSet string FreezerState
  | FreezerGetState string
  | SubsystemSet string string
  | SubsystemGetStats string string
  | CgroupsGetPids string
  | CgroupsGetAllPids string
  | Infof error

text \<open>
  The \<open>legacyManager\<close> struct: the config, the path table, and the calls made so far
  (the mutex and the dbus connection are seen only through those calls). The Go
  \<open>paths\<close> map may be nil; reading a nil map finds nothing, as the empty map does.
\<close>

record legacyManager =
  cgroups :: Cgroup
  paths :: "string \<rightharpoonup> string"
  calls :: "event list"

text \<open>
  The collaborators of the file that are not part of it. Those that change the unit
  manager or the filesystem answer from the calls made so far; the lookups of the host
  (mount points, the init cgroup, slice expansion, property generation) are functions
  of their arguments.
  \<^item> \<open>generateDeviceProperties\<close>, \<open>addCpuQuota\<close>, \<open>addCpuset\<close>: the property helpers;
    each yields the properties it appends, the first and the last possibly an error.
  \<^item> \<open>cgroups_RemovePaths\<close> receives the path table itself (a Go map) and may delete
    entries from it, so it also yields the table it leaves.
\<close>

record sd_env =
  generateDeviceProperties :: "string list \<Rightarrow> error + property list"
  addCpuQuota :: "64 word \<Rightarrow> 64 word \<Rightarrow> property list"
  addCpuset :: "string \<Rightarrow> string \<Rightarrow> error + property list"
  getUnitName :: "Cgroup \<Rightarrow> string"
  startUnit :: "event list \<Rightarrow> string \<Rightarrow> property list \<Rightarrow> error option"
  stopUnit :: "event list \<Rightarrow> string \<Rightarrow> error option"
  setUnitProperties :: "event list \<Rightarrow> string \<Rightarrow> property list \<Rightarrow> error option"
  cgroups_ParseCgroupFile :: "event list \<Rightarrow> string \<Rightarrow> error + (string \<rightharpoonup> string)"
  cgroups_EnterPid :: "event list \<Rightarrow> (string \<rightharpoonup> string) \<Rightarrow> int \<Rightarrow> error option"
  cgroups_RemovePaths ::
    "event list \<Rightarrow> (string \<rightharpoonup> string) \<Rightarrow> error option \<times> (string \<rightharpoonup> string)"
  cgroups_FindCgroupMountpoint :: "string \<Rightarrow> string \<Rightarrow> error + string"
  cgroups_GetInitCgroup :: "string \<Rightarrow> error + string"
  cgroups_IsNotFound :: "error \<Rightarrow> bool"
  cgroups_WriteCgroupProc :: "event list \<Rightarrow> string \<Rightarrow> int \<Rightarrow> error option"
  cgroups_GetPids :: "event list \<Rightarrow> string \<Rightarrow> int list \<times> error option"
  cgroups_GetAllPids :: "event list \<Rightarrow> string \<Rightarrow> int list \<times> error option"
  ExpandSlice :: "string \<Rightarrow> error + string"
  filepath_Clean :: "string \<Rightarrow> string"
  filepath_Join :: "string list \<Rightarrow> string"
  os_MkdirAll :: "event list \<Rightarrow> string \<Rightarrow> error option"
  cpuset_ApplyDir :: "event list \<Rightarrow> string \<Rightarrow> Resources \<Rightarrow> int \<Rightarrow> error option"
  freezer_Set :: "event list \<Rightarrow> string \<Rightarrow> Resources \<Rightarrow> error option"
  freezer_GetState :: "event list \<Rightarrow> string \<Rightarrow> error + FreezerState"
  subsystem_Set :: "event list \<Rightarrow> string \<Rightarrow> string \<Rightarrow> Resources \<Rightarrow> error option"
  subsystem_GetStats :: "event list \<Rightarrow> string \<Rightarrow> string \<Rightarrow> Stats \<Rightarrow> error + Stats"

definition record_call :: "event \<Rightarrow> legacyManager \<Rightarrow> legacyManager" where
  "record_call ev m = m\<lparr>calls := calls m @ [ev]\<rparr>"

text \<open>\<open>NewLegacyManager\<close>: the config and the given paths (possibly nil), no call made yet.\<close>

definition NewLegacyManager :: "Cgroup \<Rightarrow> (string \<rightharpoonup> string) option \<Rightarrow> legacyManager" where
  "NewLegacyManager cg ps =
     \<lparr>cgroups = cg, paths = (case ps of None \<Rightarrow> Map.empty | Some p \<Rightarrow> p), calls = []\<rparr>"

text \<open>
  Modelled from the spec: the names that the \<open>Name()\<close> methods of the groups of
  package \<open>fs\<close> return, that package not being among the sources. The list is
  \<open>legacySubsystems\<close> in the order of the source; \<open>cpuset\<close>, \<open>devices\<close>, \<open>memory\<close>,
  \<open>freezer\<close> and \<open>name=systemd\<close> are also written out in the file itself.
\<close>

definition legacySubsystems :: "string list" where
  "legacySubsystems =
     [''cpuset'', ''devices'', ''memory'', ''cpu'', ''cpuacct'', ''pids'', ''blkio'',
      ''hugetlb'', ''perf_event'', ''freezer'', ''net_prio'', ''net_cls'', ''name=systemd'']"

subsection \<open>genV1ResourcesProperties\<close>

text \<open>
  The Go function returns a pair: the property list and the error. On an error the
  list is nil. \<open>0 <s x\<close> is the signed comparison of an \<open>int64\<close>; \<open>uint64(x)\<close> keeps
  the bits of an \<open>int64\<close> and zero-extends a \<open>uint16\<close>.
\<close>

definition genV1ResourcesProperties :: "sd_env \<Rightarrow> Resources \<Rightarrow> property list \<times> error option" where
  "genV1ResourcesProperties E r =
     (case generateDeviceProperties E (Devices r) of
        Inl err \<Rightarrow> ([], Some err)
      | Inr deviceProperties \<Rightarrow>
          (case addCpuset E (CpusetCpus r) (CpusetMems r) of
             Inl err \<Rightarrow> ([], Some err)
           | Inr cpusetProperties \<Rightarrow>
               (deviceProperties
                 @ (if Memory r \<noteq> 0 then [newProp ''MemoryLimit'' (PUint64 (Memory r))] else [])
                 @ (if CpuShares r \<noteq> 0 then [newProp ''CPUShares'' (PUint64 (CpuShares r))] else [])
                 @ addCpuQuota E (CpuQuota r) (CpuPeriod r)
                 @ (if BlkioWeight r \<noteq> 0
                    then [newProp ''BlockIOWeight'' (PUint64 (ucast (BlkioWeight r)))] else [])
                 @ (if 0 <s PidsLimit r \<or> PidsLimit r = - 1
                    then [newProp ''TasksMax'' (PUint64 (PidsLimit r))] else [])
                 @ cpusetProperties,
                None)))"

subsection \<open>Path resolution\<close>

definition HasSuffix :: "string \<Rightarrow> string \<Rightarrow> bool" where
  "HasSuffix s suffix =
     (length suffix \<le> length s \<and> drop (length s - length suffix) s = suffix)"

definition TrimSuffix :: "string \<Rightarrow> string \<Rightarrow> string" where
  "TrimSuffix s suffix = (if HasSuffix s suffix then take (length s - length suffix) s else s)"

definition getSubsystemPath :: "sd_env \<Rightarrow> Cgroup \<Rightarrow> string \<Rightarrow> error + string" where
  "getSubsystemPath E c subsystem =
     (case cgroups_FindCgroupMountpoint E [] subsystem of
        Inl err \<Rightarrow> Inl err
      | Inr mountpoint \<Rightarrow>
          (case cgroups_GetInitCgroup E subsystem of
             Inl err \<Rightarrow> Inl err
           | Inr initPath \<Rightarrow>
               (case ExpandSlice E (if Parent c \<noteq> [] then Parent c else ''system.slice'') of
                  Inl err \<Rightarrow> Inl err
                | Inr slice' \<Rightarrow>
                    Inr (filepath_Join E
                          [mountpoint, TrimSuffix (filepath_Clean E initPath) ''init.scope'',
                           slice', getUnitName E c]))))"

subsection \<open>Apply\<close>

text \<open>The first loop of \<open>Apply\<close>: one path per subsystem, into a fresh map.\<close>

fun resolve_paths ::
  "sd_env \<Rightarrow> Cgroup \<Rightarrow> string list \<Rightarrow> (string \<rightharpoonup> string) \<Rightarrow> error + (string \<rightharpoonup> string)" where
  "resolve_paths E c [] ps = Inr ps"
| "resolve_paths E c (s # rest) ps =
     (case getSubsystemPath E c s of
        Inl err \<Rightarrow>
          (if s = ''devices'' then Inl err
           else if cgroups_IsNotFound E err then resolve_paths E c rest ps
           else Inl err)
      | Inr subsystemPath \<Rightarrow> resolve_paths E c rest (ps(s \<mapsto> subsystemPath)))"

text \<open>\<open>joinCgroups\<close>: the loop over \<open>legacySubsystems\<close>.\<close>

fun join_loop :: "sd_env \<Rightarrow> string list \<Rightarrow> int \<Rightarrow> legacyManager \<Rightarrow> error option \<times> legacyManager" where
  "join_loop E [] pid m = (None, m)"
| "join_loop E (name # rest) pid m =
     (if name = ''name=systemd'' then join_loop E rest pid m
      else if name = ''cpuset'' then
        (case paths m name of
           None \<Rightarrow> join_loop E rest pid m
         | Some path \<Rightarrow>
             (case cpuset_ApplyDir E (calls m) path (cg_Resources (cgroups m)) pid of
                Some err \<Rightarrow> (Some err, record_call (CpusetApplyDir path pid) m)
              | None \<Rightarrow> join_loop E rest pid (record_call (CpusetApplyDir path pid) m)))
      else
        (case paths m name of
           None \<Rightarrow> join_loop E rest pid m
         | Some path \<Rightarrow>
             (case os_MkdirAll E (calls m) path of
                Some err \<Rightarrow> (Some err, record_call (MkdirAll path) m)
              | None \<Rightarrow>
                  (case cgroups_WriteCgroupProc E (calls m @ [MkdirAll path]) path pid of
                     Some err \<Rightarrow>
                       (Some err, record_call (WriteCgroupProc path pid) (record_call (MkdirAll path) m))
                   | None \<Rightarrow>
                       join_loop E rest pid
                         (record_call (WriteCgroupProc path pid) (record_call (MkdirAll path) m))))))"

definition joinCgroups :: "sd_env \<Rightarrow> legacyManager \<Rightarrow> int \<Rightarrow> error option \<times> legacyManager" where
  "joinCgroups E m pid = join_loop E legacySubsystems pid m"

text \<open>The branch \<open>if c.Paths != nil\<close> of \<open>Apply\<close>, entered with the lock held.\<close>

definition apply_external_paths ::
  "sd_env \<Rightarrow> (string \<rightharpoonup> string) \<Rightarrow> int \<Rightarrow> legacyManager \<Rightarrow> error option \<times> legacyManager" where
  "apply_external_paths E cpaths pid m =
     (case cgroups_ParseCgroupFile E (calls m) ''/proc/self/cgroup'' of
        Inl err \<Rightarrow> (Some err, record_call (ParseCgroupFile ''/proc/self/cgroup'') m)
      | Inr cgMap \<Rightarrow>
          (let m1 = (record_call (ParseCgroupFile ''/proc/self/cgroup'') m)
                      \<lparr>paths := (\<lambda>name. if cgMap name \<noteq> None then cpaths name else None)\<rparr>
           in (cgroups_EnterPid E (calls m1) (paths m1) pid,
               record_call (EnterPid (paths m1) pid) m1)))"

text \<open>The properties handed to \<open>startUnit\<close>. \<open>uint32(pid)\<close> truncates the Go \<open>int\<close>.\<close>

definition start_properties :: "Cgroup \<Rightarrow> string \<Rightarrow> int \<Rightarrow> property list" where
  "start_properties c unitName pid =
     [newProp ''Description'' (PString (''libcontainer container '' @ Name c))]
     @ (if HasSuffix unitName ''.slice''
        then [newProp ''Wants'' (PStrings [if Parent c \<noteq> [] then Parent c else ''system.slice''])]
        else [newProp ''Slice'' (PString (if Parent c \<noteq> [] then Parent c else ''system.slice''))])
     @ (if pid \<noteq> - 1 then [newProp ''PIDs'' (PUint32s [word_of_int pid])] else [])
     @ (if \<not> HasSuffix unitName ''.slice'' then [newProp ''Delegate'' (PBool True)] else [])
     @ [newProp ''MemoryAccounting'' (PBool True),
        newProp ''CPUAccounting'' (PBool True),
        newProp ''BlockIOAccounting'' (PBool True),
        newProp ''TasksAccounting'' (PBool True)]
     @ [newProp ''DefaultDependencies'' (PBool False)]
     @ SystemdProps c"

text \<open>The rest of \<open>Apply\<close>, from \<open>startUnit\<close> on, entered with the lock held.\<close>

definition apply_unit :: "sd_env \<Rightarrow> int \<Rightarrow> legacyManager \<Rightarrow> error option \<times> legacyManager" where
  "apply_unit E pid m =
     (let unitName = getUnitName E (cgroups m);
          properties = start_properties (cgroups m) unitName pid;
          m1 = record_call (StartUnit unitName properties) m
      in case startUnit E (calls m) unitName properties of
           Some err \<Rightarrow> (Some err, m1)
         | None \<Rightarrow>
             (case resolve_paths E (cgroups m1) legacySubsystems Map.empty of
                Inl err \<Rightarrow> (Some err, m1)
              | Inr ps \<Rightarrow> joinCgroups E (m1\<lparr>paths := ps\<rparr>) pid))"

definition Apply :: "sd_env \<Rightarrow> legacyManager \<Rightarrow> int \<Rightarrow> error option \<times> legacyManager" where
  "Apply E m pid =
     (if Unified (cg_Resources (cgroups m)) \<noteq> None then (Some ErrV1NoUnified, m)
      else
        (case (case Paths (cgroups m) of
                 Some cpaths \<Rightarrow> apply_external_paths E cpaths pid (record_call MuLock m)
               | None \<Rightarrow> apply_unit E pid (record_call MuLock m)) of
           (err, m') \<Rightarrow> (err, record_call MuUnlock m')))"

subsection \<open>Destroy and Path\<close>

definition Destroy :: "sd_env \<Rightarrow> legacyManager \<Rightarrow> error option \<times> legacyManager" where
  "Destroy E m =
     (if Paths (cgroups m) \<noteq> None then (None, m)
      else
        (let m1 = record_call MuLock m;
             stopErr = stopUnit E (calls m1) (getUnitName E (cgroups m1));
             m2 = record_call (StopUnit (getUnitName E (cgroups m1))) m1;
             removed = cgroups_RemovePaths E (calls m2) (paths m2);
             m3 = (record_call (RemovePaths (paths m2)) m2)\<lparr>paths := snd removed\<rparr>
         in if fst removed \<noteq> None \<and> stopErr = None
            then (fst removed, record_call MuUnlock m3)
            else (stopErr, record_call MuUnlock m3)))"

text \<open>\<open>m.paths[subsys]\<close> is the empty string for a missing key.\<close>

definition Path :: "legacyManager \<Rightarrow> string \<Rightarrow> string \<times> legacyManager" where
  "Path m subsys =
     (case paths m subsys of None \<Rightarrow> [] | Some p \<Rightarrow> p,
      record_call MuUnlock (record_call MuLock m))"

definition GetPaths :: "legacyManager \<Rightarrow> (string \<rightharpoonup> string) \<times> legacyManager" where
  "GetPaths m = (paths m, record_call MuUnlock (record_call MuLock m))"

subsection \<open>Freeze, GetFreezerState, GetPids, GetAllPids, GetStats\<close>

definition set_Freezer :: "FreezerState \<Rightarrow> legacyManager \<Rightarrow> legacyManager" where
  "set_Freezer state m =
     m\<lparr>cgroups := (cgroups m)\<lparr>cg_Resources := (cg_Resources (cgroups m))\<lparr>Freezer := state\<rparr>\<rparr>\<rparr>"

definition Freeze :: "sd_env \<Rightarrow> legacyManager \<Rightarrow> FreezerState \<Rightarrow> error option \<times> legacyManager" where
  "Freeze E m state =
     (case paths m ''freezer'' of
        None \<Rightarrow> (Some ErrSubsystemDoesNotExist, m)
      | Some path \<Rightarrow>
          (let prevState = Freezer (cg_Resources (cgroups m));
               m1 = set_Freezer state m
           in case freezer_Set E (calls m1) path (cg_Resources (cgroups m1)) of
                Some err \<Rightarrow> (Some err, set_Freezer prevState (record_call (FreezerSet path state) m1))
              | None \<Rightarrow> (None, record_call (FreezerSet path state) m1)))"

definition GetFreezerState :: "sd_env \<Rightarrow> legacyManager \<Rightarrow> (error + FreezerState) \<times> legacyManager" where
  "GetFreezerState E m =
     (case paths m ''freezer'' of
        None \<Rightarrow> (Inr Undefined, m)
      | Some path \<Rightarrow> (freezer_GetState E (calls m) path, record_call (FreezerGetState path) m))"

definition GetPids :: "sd_env \<Rightarrow> legacyManager \<Rightarrow> (int list \<times> error option) \<times> legacyManager" where
  "GetPids E m =
     (case paths m ''devices'' of
        None \<Rightarrow> (([], Some ErrSubsystemDoesNotExist), m)
      | Some path \<Rightarrow> (cgroups_GetPids E (calls m) path, record_call (CgroupsGetPids path) m))"

definition GetAllPids :: "sd_env \<Rightarrow> legacyManager \<Rightarrow> (int list \<times> error option) \<times> legacyManager" where
  "GetAllPids E m =
     (case paths m ''devices'' of
        None \<Rightarrow> (([], Some ErrSubsystemDoesNotExist), m)
      | Some path \<Rightarrow> (cgroups_GetAllPids E (calls m) path, record_call (CgroupsGetAllPids path) m))"

text \<open>The loop of \<open>GetStats\<close>; a missing key and an empty path are both skipped.\<close>

fun stats_loop :: "sd_env \<Rightarrow> string list \<Rightarrow> Stats \<Rightarrow> legacyManager \<Rightarrow> (error + Stats) \<times> legacyManager" where
  "stats_loop E [] stats m = (Inr stats, m)"
| "stats_loop E (name # rest) stats m =
     (case paths m name of
        None \<Rightarrow> stats_loop E rest stats m
      | Some path \<Rightarrow>
          (if path = [] then stats_loop E rest stats m
           else
             (case subsystem_GetStats E (calls m) name path stats of
                Inl err \<Rightarrow> (Inl err, record_call (SubsystemGetStats name path) m)
              | Inr stats' \<Rightarrow> stats_loop E rest stats' (record_call (SubsystemGetStats name path) m))))"

definition GetStats :: "sd_env \<Rightarrow> legacyManager \<Rightarrow> (error + Stats) \<times> legacyManager" where
  "GetStats E m =
     (case stats_loop E legacySubsystems [] (record_call MuLock m) of
        (res, m') \<Rightarrow> (res, record_call MuUnlock m'))"

subsection \<open>Set\<close>

text \<open>The last loop of \<open>Set\<close>: each subsystem with a path sets its limits.\<close>

fun set_loop :: "sd_env \<Rightarrow> string list \<Rightarrow> Resources \<Rightarrow> legacyManager \<Rightarrow> error option \<times> legacyManager" where
  "set_loop E [] r m = (None, m)"
| "set_loop E (name # rest) r m =
     (case paths m name of
        None \<Rightarrow> set_loop E rest r m
      | Some path \<Rightarrow>
          (case subsystem_Set E (calls m) name path r of
             Some err \<Rightarrow> (Some err, record_call (SubsystemSet name path) m)
           | None \<Rightarrow> set_loop E rest r (record_call (SubsystemSet name path) m)))"

text \<open>
  The block that freezes the container before the properties are set: it yields the
  state to go back to, or the error of \<open>GetFreezerState\<close>.
\<close>

definition freeze_before_set ::
  "sd_env \<Rightarrow> legacyManager \<Rightarrow> (error + FreezerState) \<times> legacyManager" where
  "freeze_before_set E m =
     (if \<not> SkipDevices (cgroups m) then
        (case GetFreezerState E m of
           (Inl err, m1) \<Rightarrow> (Inl err, m1)
         | (Inr st, m1) \<Rightarrow>
             (case Freeze E m1 Frozen of
                (Some err, m2) \<Rightarrow>
                  (Inr (if st = Undefined then Thawed else st), record_call (Infof err) m2)
              | (None, m2) \<Rightarrow> (Inr (if st = Undefined then Thawed else st), m2)))
      else (Inr Undefined, m))"

text \<open>
  \<open>Set\<close>. The argument \<open>r\<close> is taken as a value of its own; a caller that passes the
  manager's own \<open>Resources\<close> pointer would see \<open>Freeze\<close> change \<open>r.Freezer\<close> as well.
\<close>

definition Set :: "sd_env \<Rightarrow> legacyManager \<Rightarrow> Resources \<Rightarrow> error option \<times> legacyManager" where
  "Set E m r =
     (if Paths (cgroups m) \<noteq> None then (None, m)
      else if Unified r \<noteq> None then (Some ErrV1NoUnified, m)
      else
        (case genV1ResourcesProperties E r of
           (properties, Some err) \<Rightarrow> (Some err, m)
         | (properties, None) \<Rightarrow>
             (case freeze_before_set E m of
                (Inl err, m1) \<Rightarrow> (Some err, m1)
              | (Inr targetFreezerState, m1) \<Rightarrow>
                  (let unitName = getUnitName E (cgroups m1);
                       m2 = record_call (SetUnitProperties unitName properties) m1
                   in case setUnitProperties E (calls m1) unitName properties of
                        Some err \<Rightarrow> (Some err, snd (Freeze E m2 targetFreezerState))
                      | None \<Rightarrow> set_loop E legacySubsystems r (snd (Freeze E m2 targetFreezerState))))))"

section \<open>Notions used to state the properties\<close>

subsection \<open>Device-filter enumeration\<close>

text \<open>
  The buffer size of the \<open>i\<close>-th query: 64 at first, afterwards the count the kernel
  reported in its previous answer.
\<close>

definition query_size :: "bpf_env \<Rightarrow> nat \<Rightarrow> nat" where
  "query_size K i = (if i = 0 then 64 else unat (q_ProgCnt (bpf_prog_query K (i - 1))))"

text \<open>
  The first \<open>k\<close> answers are all "no space", each reporting a count that is not zero
  (the kernel reports the number of attached programs, which then exceeds the buffer).
\<close>

fun no_space_run :: "bpf_env \<Rightarrow> nat \<Rightarrow> bool" where
  "no_space_run K 0 = True"
| "no_space_run K (Suc i) =
     (no_space_run K i \<and> q_errno (bpf_prog_query K i) = ENOSPC \<and>
      q_ProgCnt (bpf_prog_query K i) \<noteq> 0)"

text \<open>The query calls number \<open>i\<close> to \<open>j - 1\<close>, each with its buffer size.\<close>

definition queries :: "bpf_env \<Rightarrow> int \<Rightarrow> nat \<Rightarrow> nat \<Rightarrow> bpf_event list" where
  "queries K dirFd i j = map (\<lambda>n. ProgQuery dirFd (query_size K n)) [i..<j]"

text \<open>The identifiers \<open>progIds[:size]\<close> after a successful \<open>k\<close>-th query.\<close>

definition final_ids :: "bpf_env \<Rightarrow> nat \<Rightarrow> 32 word list" where
  "final_ids K k =
     take (unat (q_ProgCnt (bpf_prog_query K k)))
       (filled_buffer (query_size K k) (q_ids (bpf_prog_query K k)))"

text \<open>
  Three kernels: one that answers "no space" twice and then succeeds with one program,
  one that always answers "no space", one that answers "no space" twice and then
  \<open>EACCES\<close>.
\<close>

definition slow_kernel :: bpf_env where
  "slow_kernel = \<lparr>
     bpf_prog_query = (\<lambda>i. if i < 2 then \<lparr>q_errno = 28, q_ProgCnt = 70, q_ids = []\<rparr>
                           else \<lparr>q_errno = 0, q_ProgCnt = 1, q_ids = [7]\<rparr>),
     NewProgramFromID = (\<lambda>i. Inr (Program (unat i))),
     NewProgram = (\<lambda>h insts license. Inr (Program 0)),
     RawAttachProgram = (\<lambda>h p r. None),
     RawDetachProgram = (\<lambda>h p. None)\<rparr>"

definition racing_kernel :: bpf_env where
  "racing_kernel =
     slow_kernel\<lparr>bpf_prog_query := (\<lambda>i. \<lparr>q_errno = 28, q_ProgCnt = 70, q_ids = []\<rparr>)\<rparr>"

definition denying_kernel :: bpf_env where
  "denying_kernel = slow_kernel\<lparr>bpf_prog_query :=
     (\<lambda>i. if i < 2 then \<lparr>q_errno = 28, q_ProgCnt = 70, q_ids = []\<rparr>
          else \<lparr>q_errno = 13, q_ProgCnt = 0, q_ids = []\<rparr>)\<rparr>"

subsection \<open>Device-filter installation\<close>

text \<open>
  The kernel's answer to the detach of the \<open>j\<close>-th old program, the ones before it
  having been detached after the calls \<open>lg\<close>. The kernels below report one, two
  (twice) and no attached program; the third refuses to detach program 8.
\<close>

definition old_detach_answer ::
  "bpf_env \<Rightarrow> int \<Rightarrow> bpf_event list \<Rightarrow> program list \<Rightarrow> nat \<Rightarrow> error option" where
  "old_detach_answer K dirFd lg oldProgs j =
     RawDetachProgram K (lg @ map (RawDetach dirFd) (take j oldProgs)) (oldProgs ! j)"

definition one_kernel :: bpf_env where
  "one_kernel = slow_kernel\<lparr>bpf_prog_query := (\<lambda>i. \<lparr>q_errno = 0, q_ProgCnt = 1, q_ids = [7]\<rparr>)\<rparr>"

definition crowded_kernel :: bpf_env where
  "crowded_kernel =
     slow_kernel\<lparr>bpf_prog_query := (\<lambda>i. \<lparr>q_errno = 0, q_ProgCnt = 2, q_ids = [7, 8]\<rparr>)\<rparr>"

definition stubborn_kernel :: bpf_env where
  "stubborn_kernel =
     crowded_kernel\<lparr>RawDetachProgram := (\<lambda>h p. if p = Program 8 then Some (Errno 16) else None)\<rparr>"

definition empty_kernel :: bpf_env where
  "empty_kernel = slow_kernel\<lparr>bpf_prog_query := (\<lambda>i. \<lparr>q_errno = 0, q_ProgCnt = 0, q_ids = []\<rparr>)\<rparr>"

subsection \<open>Hosts and managers to evaluate on\<close>

text \<open>
  A host on which every call succeeds, a container config without limits, a manager
  that has not been applied yet and one with a memory and a freezer path.
\<close>

definition quiet_host :: sd_env where
  "quiet_host = \<lparr>
     generateDeviceProperties = (\<lambda>rules. Inr (map (\<lambda>rule. newProp ''DeviceAllow'' (POther rule)) rules)),
     addCpuQuota = (\<lambda>quota period. []),
     addCpuset = (\<lambda>cpus mems. Inr []),
     getUnitName = (\<lambda>c. Name c @ ''.scope''),
     startUnit = (\<lambda>h name props. None),
     stopUnit = (\<lambda>h name. None),
     setUnitProperties = (\<lambda>h name props. None),
     cgroups_ParseCgroupFile = (\<lambda>h file. Inr [''devices'' \<mapsto> ''/'', ''memory'' \<mapsto> ''/'']),
     cgroups_EnterPid = (\<lambda>h ps pid. None),
     cgroups_RemovePaths = (\<lambda>h ps. (None, Map.empty)),
     cgroups_FindCgroupMountpoint = (\<lambda>dir subsystem. Inr (''/sys/fs/cgroup/'' @ subsystem)),
     cgroups_GetInitCgroup = (\<lambda>subsystem. Inr ''/''),
     cgroups_IsNotFound = (\<lambda>err. err = External ''mountpoint not found''),
     cgroups_WriteCgroupProc = (\<lambda>h path pid. None),
     cgroups_GetPids = (\<lambda>h path. ([1, 2], None)),
     cgroups_GetAllPids = (\<lambda>h path. ([1, 2, 3], None)),
     ExpandSlice = (\<lambda>s. Inr s),
     filepath_Clean = (\<lambda>p. p),
     filepath_Join = concat,
     os_MkdirAll = (\<lambda>h path. None),
     cpuset_ApplyDir = (\<lambda>h path r pid. None),
     freezer_Set = (\<lambda>h path r. None),
     freezer_GetState = (\<lambda>h path. Inr Thawed),
     subsystem_Set = (\<lambda>h name path r. None),
     subsystem_GetStats = (\<lambda>h name path stats. Inr stats)\<rparr>"

definition no_limits :: Resources where
  "no_limits = \<lparr>Devices = [], Memory = 0, CpuShares = 0, CpuQuota = 0, CpuPeriod = 0,
     BlkioWeight = 0, PidsLimit = 0, CpusetCpus = [], CpusetMems = [], Freezer = Undefined,
     Unified = None\<rparr>"

definition container :: Cgroup where
  "container = \<lparr>Name = ''ctr'', Parent = [], Paths = None, cg_Resources = no_limits,
     SkipDevices = False, SystemdProps = []\<rparr>"

definition fresh_manager :: legacyManager where
  "fresh_manager = \<lparr>cgroups = container, paths = Map.empty, calls = []\<rparr>"

definition running_manager :: legacyManager where
  "running_manager =
     fresh_manager\<lparr>paths := [''memory'' \<mapsto> ''/sys/fs/cgroup/memory/ctr.scope'',
                            ''freezer'' \<mapsto> ''/sys/fs/cgroup/freezer/ctr.scope'']\<rparr>"

text \<open>A host on which both the unit stop and the removal of the paths fail.\<close>

definition failing_host :: sd_env where
  "failing_host = quiet_host\<lparr>
     stopUnit := (\<lambda>h name. Some (External ''stop failed'')),
     cgroups_RemovePaths := (\<lambda>h ps. (Some (External ''remove failed''), ps))\<rparr>"

text \<open>A config with externally supplied paths, and the same with a unified-resource map.\<close>

definition joined :: Cgroup where
  "joined = container\<lparr>Paths := Some [''devices'' \<mapsto> ''/ext/devices'', ''rdma'' \<mapsto> ''/ext/rdma'']\<rparr>"

definition joined_unified :: Cgroup where
  "joined_unified = joined\<lparr>cg_Resources := no_limits\<lparr>Unified := Some Map.empty\<rparr>\<rparr>"

definition joining_manager :: legacyManager where
  "joining_manager = fresh_manager\<lparr>cgroups := joined\<rparr>"

text \<open>
  What the three property helpers contribute for \<open>r\<close>, and whether a list has a
  property of a given name.
\<close>

definition helper_properties :: "sd_env \<Rightarrow> Resources \<Rightarrow> property list" where
  "helper_properties E r =
     (case generateDeviceProperties E (Devices r) of Inl err \<Rightarrow> [] | Inr ps \<Rightarrow> ps)
     @ addCpuQuota E (CpuQuota r) (CpuPeriod r)
     @ (case addCpuset E (CpusetCpus r) (CpusetMems r) of Inl err \<Rightarrow> [] | Inr ps \<Rightarrow> ps)"

definition emits :: "property list \<Rightarrow> string \<Rightarrow> bool" where
  "emits props name = (name \<in> set (map prop_Name props))"

definition some_limits :: Resources where
  "some_limits = no_limits\<lparr>Devices := [''c 1:3 rwm''], Memory := 512, PidsLimit := - 1\<rparr>"

text \<open>A host whose device-rule translation rejects the rule \<open>bad\<close>.\<close>

definition strict_host :: sd_env where
  "strict_host = quiet_host\<lparr>generateDeviceProperties :=
     (\<lambda>rules. if ''bad'' \<in> set rules then Inl (External ''invalid device rule'') else Inr [])\<rparr>"

definition bad_limits :: Resources where
  "bad_limits = no_limits\<lparr>Devices := [''bad''], Memory := 512\<rparr>"





text \<open>No call on the mutex among the events.\<close>

definition lock_free :: "event list \<Rightarrow> bool" where
  "lock_free evs = (MuLock \<notin> set evs \<and> MuUnlock \<notin> set evs)"

text \<open>The calls made on the way from \<open>m\<close> to \<open>m'\<close>.\<close>

definition new_calls :: "legacyManager \<Rightarrow> legacyManager \<Rightarrow> event list" where
  "new_calls m m' = drop (length (calls m)) (calls m')"

text \<open>The manager went from \<open>m\<close> to \<open>m'\<close> by calls that leave the mutex alone.\<close>

definition unlocked_run :: "legacyManager \<Rightarrow> legacyManager \<Rightarrow> bool" where
  "unlocked_run m m' =
     (take (length (calls m)) (calls m') = calls m \<and> lock_free (new_calls m m'))"

text \<open>
  The manager went from \<open>m\<close> to \<open>m'\<close> by taking the lock first, releasing it last and
  leaving it alone in between.
\<close>

definition locked_run :: "legacyManager \<Rightarrow> legacyManager \<Rightarrow> bool" where
  "locked_run m m' =
     (take (length (calls m)) (calls m') = calls m \<and>
      (case new_calls m m' of
         [] \<Rightarrow> False
       | ev # rest \<Rightarrow> ev = MuLock \<and> rest \<noteq> [] \<and> last rest = MuUnlock \<and> lock_free (butlast rest)))"

definition listing_manager :: legacyManager where
  "listing_manager = running_manager\<lparr>paths := [''devices'' \<mapsto> ''/sys/fs/cgroup/devices/ctr.scope'']\<rparr>"

section \<open>Properties of the device-filter attacher\<close>

subsection \<open>The retry loop\<close>

lemma no_space_run_iff:
  "no_space_run K k \<longleftrightarrow>
     (\<forall>i<k. q_errno (bpf_prog_query K i) = ENOSPC \<and> q_ProgCnt (bpf_prog_query K i) \<noteq> 0)"
  by (induction k) (auto simp: less_Suc_eq)

lemma query_size_Suc: "query_size K (Suc i) = unat (q_ProgCnt (bpf_prog_query K i))"
  by (simp add: query_size_def)

lemma query_size_nonzero:
  "no_space_run K k \<Longrightarrow> i \<le> k \<Longrightarrow> query_size K i \<noteq> 0"
  by (cases i) (auto simp: query_size_def no_space_run_iff unat_eq_0)

lemma queries_snoc:
  "i \<le> j \<Longrightarrow> queries K fd i (Suc j) = queries K fd i j @ [ProgQuery fd (query_size K j)]"
  by (simp add: queries_def)

lemma length_filled_buffer: "length (filled_buffer n w) = n"
  by (simp add: filled_buffer_def min_def)

text \<open>After \<open>k\<close> "no space" answers the loop is at \<open>retries = k\<close>, having issued \<open>k\<close> queries.\<close>

lemma find_loop_skip:
  "no_space_run K k \<Longrightarrow> k \<le> 10 \<Longrightarrow>
   find_loop K fd 64 0 lg = find_loop K fd (query_size K k) k (lg @ queries K fd 0 k)"
proof (induction k)
  case 0
  then show ?case by (simp add: query_size_def queries_def)
next
  case (Suc k)
  have nz: "query_size K k \<noteq> 0"
    using Suc.prems(1) query_size_nonzero [of K k k] by simp
  have "find_loop K fd 64 0 lg = find_loop K fd (query_size K k) k (lg @ queries K fd 0 k)"
    using Suc by simp
  also have "\<dots> = find_loop K fd (query_size K (Suc k)) (Suc k) (lg @ queries K fd 0 (Suc k))"
    using Suc.prems nz
    by (subst find_loop.simps) (simp add: ENOSPC_def query_size_Suc queries_snoc)
  finally show ?case .
qed

lemma programs_from_ids_ok:
  "\<forall>i \<in> set ids. \<exists>p. NewProgramFromID K i = Inr p \<Longrightarrow>
   programs_from_ids K ids lg =
     (Inr (map (\<lambda>i. projr (NewProgramFromID K i)) ids), lg @ map ProgramFromID ids)"
  by (induction ids arbitrary: lg) (auto split: sum.splits)

text \<open>
  Claim C2. Whatever the kernel answers to the queries:
  \<^item> when it answers "no space" \<open>k < 10\<close> times and then succeeds, the function goes on to
    turn the identifiers of that last answer into handles, the last query having been
    issued with the count reported by the answer before it as its buffer size; it
    returns the programs when every identifier resolves;
  \<^item> when it answers "no space" ten times in a row, the function fails with the error
    "could not get complete list", which is not a wrapped errno, after ten queries;
  \<^item> when answer \<open>k\<close> carries another errno, the function fails with that errno wrapped,
    and query \<open>k\<close> is the last one issued.
  The answers are those of a kernel that keeps to the query interface: a "no space"
  answer reports a count that is not zero, a success a count within the buffer.
\<close>

theorem findAttached_retry_bound:
  "(k < 10 \<and> no_space_run K k \<and> q_errno (bpf_prog_query K k) = 0 \<and>
      unat (q_ProgCnt (bpf_prog_query K k)) \<le> query_size K k \<longrightarrow>
      findAttachedCgroupDeviceFilters K dirFd lg =
        programs_from_ids K (final_ids K k) (lg @ queries K dirFd 0 (Suc k)) \<and>
      ((\<forall>i \<in> set (final_ids K k). \<exists>p. NewProgramFromID K i = Inr p) \<longrightarrow>
        (\<exists>ps. fst (findAttachedCgroupDeviceFilters K dirFd lg) = Inr ps \<and>
              length ps = unat (q_ProgCnt (bpf_prog_query K k))))) \<and>
   (no_space_run K 9 \<and> q_errno (bpf_prog_query K 9) = ENOSPC \<longrightarrow>
      findAttachedCgroupDeviceFilters K dirFd lg =
        (Inl (ErrorsNew ''could not get complete list of CGROUP_DEVICE programs''),
         lg @ queries K dirFd 0 10)) \<and>
   (k < 10 \<and> no_space_run K k \<and> q_errno (bpf_prog_query K k) \<noteq> 0 \<and>
      q_errno (bpf_prog_query K k) \<noteq> ENOSPC \<longrightarrow>
      findAttachedCgroupDeviceFilters K dirFd lg =
        (Inl (Wrapped ''bpf_prog_query(BPF_CGROUP_DEVICE) failed''
                (Errno (q_errno (bpf_prog_query K k)))),
         lg @ queries K dirFd 0 (Suc k)))"
proof (intro conjI impI)
  assume h: "k < 10 \<and> no_space_run K k \<and> q_errno (bpf_prog_query K k) = 0 \<and>
      unat (q_ProgCnt (bpf_prog_query K k)) \<le> query_size K k"
  then have nz: "query_size K k \<noteq> 0"
    using query_size_nonzero [of K k k] by simp
  have "findAttachedCgroupDeviceFilters K dirFd lg =
          find_loop K dirFd (query_size K k) k (lg @ queries K dirFd 0 k)"
    using h find_loop_skip [of K k dirFd lg]
    by (simp add: findAttachedCgroupDeviceFilters_def)
  also have "\<dots> = programs_from_ids K (final_ids K k) (lg @ queries K dirFd 0 (Suc k))"
    using h nz by (subst find_loop.simps) (simp add: final_ids_def queries_snoc)
  finally show eq: "findAttachedCgroupDeviceFilters K dirFd lg =
        programs_from_ids K (final_ids K k) (lg @ queries K dirFd 0 (Suc k))" .
  assume "\<forall>i \<in> set (final_ids K k). \<exists>p. NewProgramFromID K i = Inr p"
  then have "programs_from_ids K (final_ids K k) (lg @ queries K dirFd 0 (Suc k)) =
      (Inr (map (\<lambda>i. projr (NewProgramFromID K i)) (final_ids K k)),
       (lg @ queries K dirFd 0 (Suc k)) @ map ProgramFromID (final_ids K k))"
    by (rule programs_from_ids_ok)
  moreover have "length (final_ids K k) = unat (q_ProgCnt (bpf_prog_query K k))"
    using h by (simp add: final_ids_def length_filled_buffer)
  ultimately show "\<exists>ps. fst (findAttachedCgroupDeviceFilters K dirFd lg) = Inr ps \<and>
              length ps = unat (q_ProgCnt (bpf_prog_query K k))"
    using eq by simp
next
  assume h: "no_space_run K 9 \<and> q_errno (bpf_prog_query K 9) = ENOSPC"
  then have nz: "query_size K 9 \<noteq> 0"
    using query_size_nonzero [of K 9 9] by simp
  have "findAttachedCgroupDeviceFilters K dirFd lg =
          find_loop K dirFd (query_size K 9) 9 (lg @ queries K dirFd 0 9)"
    using h find_loop_skip [of K 9 dirFd lg]
    by (simp add: findAttachedCgroupDeviceFilters_def)
  also have "\<dots> = find_loop K dirFd (query_size K 10) 10 (lg @ queries K dirFd 0 10)"
    using h nz queries_snoc [of 0 9 K dirFd] query_size_Suc [of K 9]
    by (subst find_loop.simps) (simp add: ENOSPC_def)
  also have "\<dots> = (Inl (ErrorsNew ''could not get complete list of CGROUP_DEVICE programs''),
         lg @ queries K dirFd 0 10)"
    by (subst find_loop.simps) simp
  finally show "findAttachedCgroupDeviceFilters K dirFd lg =
        (Inl (ErrorsNew ''could not get complete list of CGROUP_DEVICE programs''),
         lg @ queries K dirFd 0 10)" .
next
  assume h: "k < 10 \<and> no_space_run K k \<and> q_errno (bpf_prog_query K k) \<noteq> 0 \<and>
      q_errno (bpf_prog_query K k) \<noteq> ENOSPC"
  then have nz: "query_size K k \<noteq> 0"
    using query_size_nonzero [of K k k] by simp
  have "findAttachedCgroupDeviceFilters K dirFd lg =
          find_loop K dirFd (query_size K k) k (lg @ queries K dirFd 0 k)"
    using h find_loop_skip [of K k dirFd lg]
    by (simp add: findAttachedCgroupDeviceFilters_def)
  also have "\<dots> = (Inl (Wrapped ''bpf_prog_query(BPF_CGROUP_DEVICE) failed''
                (Errno (q_errno (bpf_prog_query K k)))),
         lg @ queries K dirFd 0 (Suc k))"
    using h nz by (subst find_loop.simps) (simp add: queries_snoc)
  finally show "findAttachedCgroupDeviceFilters K dirFd lg =
        (Inl (Wrapped ''bpf_prog_query(BPF_CGROUP_DEVICE) failed''
                (Errno (q_errno (bpf_prog_query K k)))),
         lg @ queries K dirFd 0 (Suc k))" .
qed

theorem findAttached_retry_bound_witness:
  "no_space_run slow_kernel 2 \<and> q_errno (bpf_prog_query slow_kernel 2) = 0 \<and>
   fst (findAttachedCgroupDeviceFilters slow_kernel 3 []) = Inr [Program 7] \<and>
   snd (findAttachedCgroupDeviceFilters slow_kernel 3 []) =
     [ProgQuery 3 64, ProgQuery 3 70, ProgQuery 3 70, ProgramFromID 7] \<and>
   no_space_run racing_kernel 9 \<and> q_errno (bpf_prog_query racing_kernel 9) = ENOSPC \<and>
   fst (findAttachedCgroupDeviceFilters racing_kernel 3 []) =
     Inl (ErrorsNew ''could not get complete list of CGROUP_DEVICE programs'') \<and>
   no_space_run denying_kernel 2 \<and> q_errno (bpf_prog_query denying_kernel 2) = 13 \<and>
   findAttachedCgroupDeviceFilters denying_kernel 3 [] =
     (Inl (Wrapped ''bpf_prog_query(BPF_CGROUP_DEVICE) failed'' (Errno 13)),
      [ProgQuery 3 64, ProgQuery 3 70, ProgQuery 3 70])"
proof -
  have a: "(2::nat) < 10 \<and> no_space_run slow_kernel 2 \<and>
      q_errno (bpf_prog_query slow_kernel 2) = 0 \<and>
      unat (q_ProgCnt (bpf_prog_query slow_kernel 2)) \<le> query_size slow_kernel 2"
    by (simp add: slow_kernel_def ENOSPC_def query_size_def no_space_run_iff)
  have b: "no_space_run racing_kernel 9 \<and> q_errno (bpf_prog_query racing_kernel 9) = ENOSPC"
    by (simp add: racing_kernel_def slow_kernel_def ENOSPC_def no_space_run_iff)
  have c: "(2::nat) < 10 \<and> no_space_run denying_kernel 2 \<and>
      q_errno (bpf_prog_query denying_kernel 2) \<noteq> 0 \<and>
      q_errno (bpf_prog_query denying_kernel 2) \<noteq> ENOSPC"
    by (simp add: denying_kernel_def slow_kernel_def ENOSPC_def no_space_run_iff)
  have d: "q_errno (bpf_prog_query denying_kernel 2) = 13"
    by (simp add: denying_kernel_def slow_kernel_def)
  have ids: "final_ids slow_kernel 2 = [7]"
    by (simp add: final_ids_def slow_kernel_def query_size_def filled_buffer_def)
  have qs: "queries slow_kernel 3 0 3 = [ProgQuery 3 64, ProgQuery 3 70, ProgQuery 3 70]"
    by (simp add: queries_def slow_kernel_def query_size_def upt_conv_Cons)
  have qd: "queries denying_kernel 3 0 3 = [ProgQuery 3 64, ProgQuery 3 70, ProgQuery 3 70]"
    by (simp add: queries_def denying_kernel_def slow_kernel_def query_size_def upt_conv_Cons)
  have r: "NewProgramFromID slow_kernel 7 = Inr (Program 7)"
    by (simp add: slow_kernel_def)
  have "fst (findAttachedCgroupDeviceFilters slow_kernel 3 []) = Inr [Program 7] \<and>
   snd (findAttachedCgroupDeviceFilters slow_kernel 3 []) =
     [ProgQuery 3 64, ProgQuery 3 70, ProgQuery 3 70, ProgramFromID 7]"
    using a findAttached_retry_bound [of 2 slow_kernel 3 "[]"]
    by (simp add: ids qs r)
  moreover have "fst (findAttachedCgroupDeviceFilters racing_kernel 3 []) =
     Inl (ErrorsNew ''could not get complete list of CGROUP_DEVICE programs'')"
    using b findAttached_retry_bound [of 9 racing_kernel 3 "[]"] by simp
  moreover have "findAttachedCgroupDeviceFilters denying_kernel 3 [] =
     (Inl (Wrapped ''bpf_prog_query(BPF_CGROUP_DEVICE) failed'' (Errno 13)),
      [ProgQuery 3 64, ProgQuery 3 70, ProgQuery 3 70])"
    using c findAttached_retry_bound [of 2 denying_kernel 3 "[]"] by (simp add: qd d)
  ultimately show ?thesis using a b c d by simp
qed

subsection \<open>Attach, replace and clean-up\<close>

lemma detach_old_all:
  "\<forall>j<length ps. old_detach_answer K fd lg ps j = None \<Longrightarrow>
   detach_old K fd ps lg = (None, lg @ map (RawDetach fd) ps)"
proof (induction ps arbitrary: lg)
  case Nil
  then show ?case by simp
next
  case (Cons p ps)
  have hd: "RawDetachProgram K lg p = None"
    using Cons.prems [rule_format, of 0] by (simp add: old_detach_answer_def)
  have tl: "\<forall>j<length ps. old_detach_answer K fd (lg @ [RawDetach fd p]) ps j = None"
  proof (intro allI impI)
    fix j assume "j < length ps"
    then show "old_detach_answer K fd (lg @ [RawDetach fd p]) ps j = None"
      using Cons.prems [rule_format, of "Suc j"] by (simp add: old_detach_answer_def)
  qed
  show ?case using hd Cons.IH [OF tl] by simp
qed

lemma detach_old_fail:
  "i < length ps \<Longrightarrow> \<forall>j<i. old_detach_answer K fd lg ps j = None \<Longrightarrow>
   old_detach_answer K fd lg ps i = Some err \<Longrightarrow>
   detach_old K fd ps lg =
     (Some (Wrapped ''failed to call BPF_PROG_DETACH (BPF_CGROUP_DEVICE) on old filter program'' err),
      lg @ map (RawDetach fd) (take (Suc i) ps))"
proof (induction ps arbitrary: lg i)
  case Nil
  then show ?case by simp
next
  case (Cons p ps)
  show ?case
  proof (cases i)
    case 0
    then show ?thesis using Cons.prems by (simp add: old_detach_answer_def)
  next
    case (Suc n)
    have hd: "RawDetachProgram K lg p = None"
      using Cons.prems(2) [rule_format, of 0] Suc by (simp add: old_detach_answer_def)
    have tl: "\<forall>j<n. old_detach_answer K fd (lg @ [RawDetach fd p]) ps j = None"
    proof (intro allI impI)
      fix j assume "j < n"
      then show "old_detach_answer K fd (lg @ [RawDetach fd p]) ps j = None"
        using Cons.prems(2) [rule_format, of "Suc j"] Suc by (simp add: old_detach_answer_def)
    qed
    have at: "old_detach_answer K fd (lg @ [RawDetach fd p]) ps n = Some err"
      using Cons.prems(3) Suc by (simp add: old_detach_answer_def)
    have "n < length ps" using Cons.prems(1) Suc by simp
    from Cons.IH [OF this tl at] hd Suc show ?thesis by simp
  qed
qed

text \<open>
  Claim C3. Once the old programs are enumerated and the new program is loaded:
  \<^item> with exactly one old program \<open>p\<close>, the attach call carries \<open>p\<close> as its replace
    target, and nothing is detached;
  \<^item> with no old program, the attach call carries no replace target, and nothing is
    detached;
  \<^item> with more than one, the attach call carries no replace target; a warning is logged
    and the old programs are detached one by one, in order; when all detaches succeed
    the install returns no error;
  \<^item> when the detach of the \<open>i\<close>-th old program is the first to fail, its error is
    returned wrapped, after the new program was attached, together with the closer
    that detaches the new program (not \<open>nilCloser\<close>);
  \<^item> that closer, when run, issues the detach of the new program.
\<close>

theorem LoadAttach_replace_or_detach:
  assumes find: "findAttachedCgroupDeviceFilters K dirFd (lg @ [Setrlimit]) = (Inr oldProgs, lg1)"
    and load: "NewProgram K lg1 insts license = Inr prog"
  shows
    "(oldProgs = [p] \<and> RawAttachProgram K (lg1 @ [ProgLoad]) prog (Some p) = None \<longrightarrow>
        LoadAttachCgroupDeviceFilter K insts license dirFd lg =
          (Returned (detachCloser dirFd prog) None,
           lg1 @ [ProgLoad, RawAttach dirFd prog (Some p)])) \<and>
     (oldProgs = [] \<and> RawAttachProgram K (lg1 @ [ProgLoad]) prog None = None \<longrightarrow>
        LoadAttachCgroupDeviceFilter K insts license dirFd lg =
          (Returned (detachCloser dirFd prog) None, lg1 @ [ProgLoad, RawAttach dirFd prog None])) \<and>
     (1 < length oldProgs \<and> RawAttachProgram K (lg1 @ [ProgLoad]) prog None = None \<and>
      (\<forall>j<length oldProgs.
          old_detach_answer K dirFd
            (lg1 @ [ProgLoad, RawAttach dirFd prog None, Warnf (length oldProgs)]) oldProgs j = None) \<longrightarrow>
        LoadAttachCgroupDeviceFilter K insts license dirFd lg =
          (Returned (detachCloser dirFd prog) None,
           lg1 @ [ProgLoad, RawAttach dirFd prog None, Warnf (length oldProgs)]
               @ map (RawDetach dirFd) oldProgs)) \<and>
     (1 < length oldProgs \<and> RawAttachProgram K (lg1 @ [ProgLoad]) prog None = None \<and>
      i < length oldProgs \<and>
      (\<forall>j<i. old_detach_answer K dirFd
            (lg1 @ [ProgLoad, RawAttach dirFd prog None, Warnf (length oldProgs)]) oldProgs j = None) \<and>
      old_detach_answer K dirFd
            (lg1 @ [ProgLoad, RawAttach dirFd prog None, Warnf (length oldProgs)]) oldProgs i = Some err \<longrightarrow>
        LoadAttachCgroupDeviceFilter K insts license dirFd lg =
          (Returned (detachCloser dirFd prog)
             (Some (Wrapped ''failed to call BPF_PROG_DETACH (BPF_CGROUP_DEVICE) on old filter program'' err)),
           lg1 @ [ProgLoad, RawAttach dirFd prog None, Warnf (length oldProgs)]
               @ map (RawDetach dirFd) (take (Suc i) oldProgs))) \<and>
     snd (run_closer K (detachCloser dirFd prog) lg') = lg' @ [RawDetach dirFd prog]"
proof -
  let ?h = "lg1 @ [ProgLoad]"
  have unfold: "LoadAttachCgroupDeviceFilter K insts license dirFd lg =
      attach_and_clean K dirFd oldProgs prog ?h"
    using find load by (simp add: LoadAttachCgroupDeviceFilter_def)
  have one: "oldProgs = [p] \<and> RawAttachProgram K ?h prog (Some p) = None \<longrightarrow>
      attach_and_clean K dirFd oldProgs prog ?h =
        (Returned (detachCloser dirFd prog) None, lg1 @ [ProgLoad, RawAttach dirFd prog (Some p)])"
    by (simp add: attach_and_clean_def replaceProg_def)
  have zero: "oldProgs = [] \<and> RawAttachProgram K ?h prog None = None \<longrightarrow>
      attach_and_clean K dirFd oldProgs prog ?h =
        (Returned (detachCloser dirFd prog) None, lg1 @ [ProgLoad, RawAttach dirFd prog None])"
    by (simp add: attach_and_clean_def replaceProg_def)
  let ?h3 = "lg1 @ [ProgLoad, RawAttach dirFd prog None, Warnf (length oldProgs)]"
  have many: "1 < length oldProgs \<and> RawAttachProgram K ?h prog None = None \<and>
      (\<forall>j<length oldProgs. old_detach_answer K dirFd ?h3 oldProgs j = None) \<longrightarrow>
      attach_and_clean K dirFd oldProgs prog ?h =
        (Returned (detachCloser dirFd prog) None, ?h3 @ map (RawDetach dirFd) oldProgs)"
  proof
    assume h: "1 < length oldProgs \<and> RawAttachProgram K ?h prog None = None \<and>
      (\<forall>j<length oldProgs. old_detach_answer K dirFd ?h3 oldProgs j = None)"
    then have "detach_old K dirFd oldProgs ?h3 = (None, ?h3 @ map (RawDetach dirFd) oldProgs)"
      by (intro detach_old_all) simp
    then show "attach_and_clean K dirFd oldProgs prog ?h =
        (Returned (detachCloser dirFd prog) None, ?h3 @ map (RawDetach dirFd) oldProgs)"
      using h by (simp add: attach_and_clean_def replaceProg_def)
  qed
  have failing: "1 < length oldProgs \<and> RawAttachProgram K ?h prog None = None \<and>
      i < length oldProgs \<and> (\<forall>j<i. old_detach_answer K dirFd ?h3 oldProgs j = None) \<and>
      old_detach_answer K dirFd ?h3 oldProgs i = Some err \<longrightarrow>
      attach_and_clean K dirFd oldProgs prog ?h =
        (Returned (detachCloser dirFd prog)
           (Some (Wrapped ''failed to call BPF_PROG_DETACH (BPF_CGROUP_DEVICE) on old filter program'' err)),
         ?h3 @ map (RawDetach dirFd) (take (Suc i) oldProgs))"
  proof
    assume h: "1 < length oldProgs \<and> RawAttachProgram K ?h prog None = None \<and>
      i < length oldProgs \<and> (\<forall>j<i. old_detach_answer K dirFd ?h3 oldProgs j = None) \<and>
      old_detach_answer K dirFd ?h3 oldProgs i = Some err"
    then have "detach_old K dirFd oldProgs ?h3 =
        (Some (Wrapped ''failed to call BPF_PROG_DETACH (BPF_CGROUP_DEVICE) on old filter program'' err),
         ?h3 @ map (RawDetach dirFd) (take (Suc i) oldProgs))"
      by (intro detach_old_fail) simp_all
    then show "attach_and_clean K dirFd oldProgs prog ?h =
        (Returned (detachCloser dirFd prog)
           (Some (Wrapped ''failed to call BPF_PROG_DETACH (BPF_CGROUP_DEVICE) on old filter program'' err)),
         ?h3 @ map (RawDetach dirFd) (take (Suc i) oldProgs))"
      using h by (simp add: attach_and_clean_def replaceProg_def)
  qed
  have closer: "snd (run_closer K (detachCloser dirFd prog) lg') = lg' @ [RawDetach dirFd prog]"
    by (simp split: option.splits)
  show ?thesis
    unfolding unfold using one zero many failing closer by simp
qed

lemma find_immediate:
  "q_errno (bpf_prog_query K 0) = 0 \<Longrightarrow> unat (q_ProgCnt (bpf_prog_query K 0)) \<le> 64 \<Longrightarrow>
   findAttachedCgroupDeviceFilters K fd lg =
     programs_from_ids K (final_ids K 0) (lg @ [ProgQuery fd 64])"
  unfolding findAttachedCgroupDeviceFilters_def
  by (subst find_loop.simps) (simp add: final_ids_def query_size_def)

theorem LoadAttach_replace_or_detach_witness:
  "LoadAttachCgroupDeviceFilter one_kernel [0] ''GPL'' 3 [] =
     (Returned (detachCloser 3 (Program 0)) None,
      [Setrlimit, ProgQuery 3 64, ProgramFromID 7, ProgLoad,
       RawAttach 3 (Program 0) (Some (Program 7))]) \<and>
   LoadAttachCgroupDeviceFilter empty_kernel [0] ''GPL'' 3 [] =
     (Returned (detachCloser 3 (Program 0)) None,
      [Setrlimit, ProgQuery 3 64, ProgLoad, RawAttach 3 (Program 0) None]) \<and>
   LoadAttachCgroupDeviceFilter crowded_kernel [0] ''GPL'' 3 [] =
     (Returned (detachCloser 3 (Program 0)) None,
      [Setrlimit, ProgQuery 3 64, ProgramFromID 7, ProgramFromID 8, ProgLoad,
       RawAttach 3 (Program 0) None, Warnf 2, RawDetach 3 (Program 7), RawDetach 3 (Program 8)]) \<and>
   LoadAttachCgroupDeviceFilter stubborn_kernel [0] ''GPL'' 3 [] =
     (Returned (detachCloser 3 (Program 0))
        (Some (Wrapped ''failed to call BPF_PROG_DETACH (BPF_CGROUP_DEVICE) on old filter program''
                 (Errno 16))),
      [Setrlimit, ProgQuery 3 64, ProgramFromID 7, ProgramFromID 8, ProgLoad,
       RawAttach 3 (Program 0) None, Warnf 2, RawDetach 3 (Program 7), RawDetach 3 (Program 8)])"
proof -
  have f1: "findAttachedCgroupDeviceFilters one_kernel 3 ([] @ [Setrlimit]) =
      (Inr [Program 7], [Setrlimit, ProgQuery 3 64, ProgramFromID 7])"
    by (subst find_immediate)
       (simp_all add: one_kernel_def slow_kernel_def final_ids_def query_size_def filled_buffer_def)
  have f0: "findAttachedCgroupDeviceFilters empty_kernel 3 ([] @ [Setrlimit]) =
      (Inr [], [Setrlimit, ProgQuery 3 64])"
    by (subst find_immediate)
       (simp_all add: empty_kernel_def slow_kernel_def final_ids_def query_size_def filled_buffer_def)
  have f2: "findAttachedCgroupDeviceFilters crowded_kernel 3 ([] @ [Setrlimit]) =
      (Inr [Program 7, Program 8], [Setrlimit, ProgQuery 3 64, ProgramFromID 7, ProgramFromID 8])"
    by (subst find_immediate)
       (simp_all add: crowded_kernel_def slow_kernel_def final_ids_def query_size_def filled_buffer_def)
  have f3: "findAttachedCgroupDeviceFilters stubborn_kernel 3 ([] @ [Setrlimit]) =
      (Inr [Program 7, Program 8], [Setrlimit, ProgQuery 3 64, ProgramFromID 7, ProgramFromID 8])"
    by (subst find_immediate)
       (simp_all add: stubborn_kernel_def crowded_kernel_def slow_kernel_def final_ids_def
          query_size_def filled_buffer_def)
  have l1: "NewProgram one_kernel [Setrlimit, ProgQuery 3 64, ProgramFromID 7] [0] ''GPL'' =
      Inr (Program 0)"
    by (simp add: one_kernel_def slow_kernel_def)
  have l0: "NewProgram empty_kernel [Setrlimit, ProgQuery 3 64] [0] ''GPL'' = Inr (Program 0)"
    by (simp add: empty_kernel_def slow_kernel_def)
  have l2: "NewProgram crowded_kernel
      [Setrlimit, ProgQuery 3 64, ProgramFromID 7, ProgramFromID 8] [0] ''GPL'' = Inr (Program 0)"
    by (simp add: crowded_kernel_def slow_kernel_def)
  have l3: "NewProgram stubborn_kernel
      [Setrlimit, ProgQuery 3 64, ProgramFromID 7, ProgramFromID 8] [0] ''GPL'' = Inr (Program 0)"
    by (simp add: stubborn_kernel_def crowded_kernel_def slow_kernel_def)
  have "LoadAttachCgroupDeviceFilter one_kernel [0] ''GPL'' 3 [] =
     (Returned (detachCloser 3 (Program 0)) None,
      [Setrlimit, ProgQuery 3 64, ProgramFromID 7, ProgLoad,
       RawAttach 3 (Program 0) (Some (Program 7))])"
    using LoadAttach_replace_or_detach [OF f1 l1, of "Program 7" 0 "Errno 0" "[]"]
    by (simp add: one_kernel_def slow_kernel_def)
  moreover have "LoadAttachCgroupDeviceFilter empty_kernel [0] ''GPL'' 3 [] =
     (Returned (detachCloser 3 (Program 0)) None,
      [Setrlimit, ProgQuery 3 64, ProgLoad, RawAttach 3 (Program 0) None])"
    using LoadAttach_replace_or_detach [OF f0 l0, of "Program 7" 0 "Errno 0" "[]"]
    by (simp add: empty_kernel_def slow_kernel_def)
  moreover have "LoadAttachCgroupDeviceFilter crowded_kernel [0] ''GPL'' 3 [] =
     (Returned (detachCloser 3 (Program 0)) None,
      [Setrlimit, ProgQuery 3 64, ProgramFromID 7, ProgramFromID 8, ProgLoad,
       RawAttach 3 (Program 0) None, Warnf 2, RawDetach 3 (Program 7), RawDetach 3 (Program 8)])"
    using LoadAttach_replace_or_detach [OF f2 l2, of "Program 7" 0 "Errno 0" "[]"]
    by (simp add: crowded_kernel_def slow_kernel_def old_detach_answer_def)
  moreover have "LoadAttachCgroupDeviceFilter stubborn_kernel [0] ''GPL'' 3 [] =
     (Returned (detachCloser 3 (Program 0))
        (Some (Wrapped ''failed to call BPF_PROG_DETACH (BPF_CGROUP_DEVICE) on old filter program''
                 (Errno 16))),
      [Setrlimit, ProgQuery 3 64, ProgramFromID 7, ProgramFromID 8, ProgLoad,
       RawAttach 3 (Program 0) None, Warnf 2, RawDetach 3 (Program 7), RawDetach 3 (Program 8)])"
    using LoadAttach_replace_or_detach [OF f3 l3, of "Program 7" 1 "Errno 16" "[]"]
    by (simp add: stubborn_kernel_def crowded_kernel_def slow_kernel_def old_detach_answer_def)
  ultimately show ?thesis by simp
qed

section \<open>Properties of the manager\<close>

subsection \<open>Destroy\<close>

text \<open>
  With both the stop and the removal failing, \<open>Destroy\<close> returns the stop error, not
  the removal error.
\<close>

theorem Destroy_prefers_cleanup_counterexample:
  "Paths (cgroups running_manager) = None \<and>
   stopUnit failing_host [MuLock] ''ctr.scope'' = Some (External ''stop failed'') \<and>
   fst (cgroups_RemovePaths failing_host [MuLock, StopUnit ''ctr.scope''] (paths running_manager)) =
     Some (External ''remove failed'') \<and>
   fst (Destroy failing_host running_manager) = Some (External ''stop failed'') \<and>
   fst (Destroy failing_host running_manager) \<noteq> Some (External ''remove failed'')"
  by (simp add: Destroy_def Let_def record_call_def failing_host_def quiet_host_def
        running_manager_def fresh_manager_def container_def)

text \<open>
  Claim C1, as the code has it. On a manager without externally supplied paths,
  \<open>Destroy\<close> stops the unit and then removes the tracked paths, whatever the stop
  returned. It returns the stop error when the stop failed (also when the removal
  failed as well), the removal error when only the removal failed, and no error when
  both succeeded.
\<close>

theorem Destroy_error_priority:
  assumes "Paths (cgroups m) = None"
  shows
    "fst (Destroy E m) =
       (case stopUnit E (calls m @ [MuLock]) (getUnitName E (cgroups m)) of
          Some stopErr \<Rightarrow> Some stopErr
        | None \<Rightarrow>
            fst (cgroups_RemovePaths E
                  (calls m @ [MuLock, StopUnit (getUnitName E (cgroups m))]) (paths m))) \<and>
     calls (snd (Destroy E m)) =
       calls m @ [MuLock, StopUnit (getUnitName E (cgroups m)), RemovePaths (paths m), MuUnlock]"
  using assms by (simp add: Destroy_def Let_def record_call_def split: option.splits)

theorem Destroy_error_priority_witness:
  "Paths (cgroups running_manager) = None \<and>
   fst (Destroy failing_host running_manager) = Some (External ''stop failed'') \<and>
   fst (Destroy (failing_host\<lparr>stopUnit := (\<lambda>h name. None)\<rparr>) running_manager) =
     Some (External ''remove failed'') \<and>
   fst (Destroy quiet_host running_manager) = None"
proof -
  have p: "Paths (cgroups running_manager) = None"
    by (simp add: running_manager_def fresh_manager_def container_def)
  show ?thesis
    using p Destroy_error_priority [OF p, of failing_host]
      Destroy_error_priority [OF p, of "failing_host\<lparr>stopUnit := (\<lambda>h name. None)\<rparr>"]
      Destroy_error_priority [OF p, of quiet_host]
    by (simp add: failing_host_def quiet_host_def)
qed

subsection \<open>Apply with externally supplied paths\<close>

text \<open>
  A config with supplied paths and a unified-resource map: \<open>Apply\<close> rejects it and
  enrolls the pid nowhere.
\<close>

theorem Apply_paths_skip_unified_check_counterexample:
  "Paths (cgroups (fresh_manager\<lparr>cgroups := joined_unified\<rparr>)) \<noteq> None \<and>
   Apply quiet_host (fresh_manager\<lparr>cgroups := joined_unified\<rparr>) 7 =
     (Some ErrV1NoUnified, fresh_manager\<lparr>cgroups := joined_unified\<rparr>) \<and>
   calls (snd (Apply quiet_host (fresh_manager\<lparr>cgroups := joined_unified\<rparr>) 7)) = []"
  by (simp add: Apply_def joined_unified_def joined_def container_def no_limits_def
        fresh_manager_def)

text \<open>
  Claim C4, as the code has it. \<open>Apply\<close> first rejects a unified-resource value,
  whether or not the config supplies paths, before it takes the lock or makes any call.
  Without such a value and with supplied paths, it parses the caller's own cgroup file,
  keeps the supplied paths whose subsystem appears there, enrolls the pid into them and
  returns what the enrollment returned: no unit is started, no directory is made. When
  the cgroup file cannot be parsed, that error is returned and the path table is left
  as it was.
\<close>

theorem Apply_external_paths:
  "(Unified (cg_Resources (cgroups m)) \<noteq> None \<longrightarrow> Apply E m pid = (Some ErrV1NoUnified, m)) \<and>
   (Unified (cg_Resources (cgroups m)) = None \<and> Paths (cgroups m) = Some cpaths \<and>
    cgroups_ParseCgroupFile E (calls m @ [MuLock]) ''/proc/self/cgroup'' = Inr cgMap \<longrightarrow>
      fst (Apply E m pid) =
        cgroups_EnterPid E (calls m @ [MuLock, ParseCgroupFile ''/proc/self/cgroup''])
          (cpaths |` dom cgMap) pid \<and>
      paths (snd (Apply E m pid)) = cpaths |` dom cgMap \<and>
      calls (snd (Apply E m pid)) =
        calls m @ [MuLock, ParseCgroupFile ''/proc/self/cgroup'',
                   EnterPid (cpaths |` dom cgMap) pid, MuUnlock]) \<and>
   (Unified (cg_Resources (cgroups m)) = None \<and> Paths (cgroups m) = Some cpaths \<and>
    cgroups_ParseCgroupFile E (calls m @ [MuLock]) ''/proc/self/cgroup'' = Inl err \<longrightarrow>
      fst (Apply E m pid) = Some err \<and>
      paths (snd (Apply E m pid)) = paths m \<and>
      calls (snd (Apply E m pid)) =
        calls m @ [MuLock, ParseCgroupFile ''/proc/self/cgroup'', MuUnlock])"
proof -
  have restr: "\<And>cgMap. (\<lambda>name. if cgMap name \<noteq> None then cpaths name else None) = cpaths |` dom cgMap"
    by (auto simp: restrict_map_def fun_eq_iff dom_def)
  show ?thesis
    by (simp add: Apply_def apply_external_paths_def record_call_def Let_def restr
          del: not_None_eq)
qed

theorem Apply_external_paths_witness:
  "Unified (cg_Resources (cgroups joining_manager)) = None \<and>
   Paths (cgroups joining_manager) \<noteq> None \<and>
   fst (Apply quiet_host joining_manager 7) = None \<and>
   paths (snd (Apply quiet_host joining_manager 7)) ''devices'' = Some ''/ext/devices'' \<and>
   paths (snd (Apply quiet_host joining_manager 7)) ''rdma'' = None \<and>
   length (calls (snd (Apply quiet_host joining_manager 7))) = 4"
proof -
  have u: "Unified (cg_Resources (cgroups joining_manager)) = None"
    by (simp add: joining_manager_def joined_def container_def no_limits_def)
  have p: "Paths (cgroups joining_manager) =
      Some [''devices'' \<mapsto> ''/ext/devices'', ''rdma'' \<mapsto> ''/ext/rdma'']"
    by (simp add: joining_manager_def joined_def container_def)
  have c: "cgroups_ParseCgroupFile quiet_host (calls joining_manager @ [MuLock]) ''/proc/self/cgroup'' =
      Inr [''devices'' \<mapsto> ''/'', ''memory'' \<mapsto> ''/'']"
    by (simp add: quiet_host_def)
  have e: "\<And>h ps. cgroups_EnterPid quiet_host h ps 7 = None"
    by (simp add: quiet_host_def)
  have cl: "calls joining_manager = []"
    by (simp add: joining_manager_def fresh_manager_def)
  show ?thesis
    using u p c
      Apply_external_paths [of joining_manager quiet_host 7
        "[''devices'' \<mapsto> ''/ext/devices'', ''rdma'' \<mapsto> ''/ext/rdma'']"
        "[''devices'' \<mapsto> ''/'', ''memory'' \<mapsto> ''/'']" "External ''x''"]
    by (simp add: e cl restrict_map_def)
qed

subsection \<open>GetPids and GetAllPids\<close>

text \<open>
  Claim C10. \<open>GetPids\<close> and \<open>GetAllPids\<close> look only at the \<open>devices\<close> entry of the
  path table: without it both return \<open>errSubsystemDoesNotExist\<close> and make no call,
  whatever other entries the table has; with it both list the processes of that path.
\<close>

theorem GetPids_devices_only:
  "(paths m ''devices'' = None \<longrightarrow>
      GetPids E m = (([], Some ErrSubsystemDoesNotExist), m) \<and>
      GetAllPids E m = (([], Some ErrSubsystemDoesNotExist), m)) \<and>
   (paths m ''devices'' = Some path \<longrightarrow>
      fst (GetPids E m) = cgroups_GetPids E (calls m) path \<and>
      calls (snd (GetPids E m)) = calls m @ [CgroupsGetPids path] \<and>
      fst (GetAllPids E m) = cgroups_GetAllPids E (calls m) path \<and>
      calls (snd (GetAllPids E m)) = calls m @ [CgroupsGetAllPids path])"
  by (simp add: GetPids_def GetAllPids_def record_call_def)

theorem GetPids_devices_only_witness:
  "paths running_manager ''devices'' = None \<and>
   paths running_manager ''memory'' = Some ''/sys/fs/cgroup/memory/ctr.scope'' \<and>
   GetPids quiet_host running_manager = (([], Some ErrSubsystemDoesNotExist), running_manager) \<and>
   GetAllPids quiet_host running_manager = (([], Some ErrSubsystemDoesNotExist), running_manager) \<and>
   fst (GetPids quiet_host (running_manager\<lparr>paths := [''devices'' \<mapsto> ''/d'']\<rparr>)) = ([1, 2], None)"
proof -
  have d: "paths running_manager ''devices'' = None"
    by (simp add: running_manager_def fresh_manager_def)
  have d': "paths (running_manager\<lparr>paths := [''devices'' \<mapsto> ''/d'']\<rparr>) ''devices'' = Some ''/d''"
    by simp
  have m: "paths running_manager ''memory'' = Some ''/sys/fs/cgroup/memory/ctr.scope''"
    by (simp add: running_manager_def fresh_manager_def)
  show ?thesis
    using d d' m GetPids_devices_only [where m = running_manager and path = "''/d''" and E = quiet_host]
      GetPids_devices_only [where m = "running_manager\<lparr>paths := [''devices'' \<mapsto> ''/d'']\<rparr>" and path = "''/d''" and E = quiet_host]
    by (simp add: quiet_host_def)
qed

subsection \<open>genV1ResourcesProperties\<close>

text \<open>
  Claim C5. The three property helpers are not part of the file; they are taken not to
  produce a property named \<open>MemoryLimit\<close>, \<open>CPUShares\<close>, \<open>BlockIOWeight\<close> or \<open>TasksMax\<close>
  themselves. Then, whenever the translation returns a property list, that list has
  \<^item> \<open>MemoryLimit\<close> exactly when \<open>Memory\<close> is not zero,
  \<^item> \<open>CPUShares\<close> exactly when \<open>CpuShares\<close> is not zero,
  \<^item> \<open>BlockIOWeight\<close> exactly when \<open>BlkioWeight\<close> is not zero,
  \<^item> \<open>TasksMax\<close> exactly when \<open>PidsLimit\<close> is positive or \<open>-1\<close>,
  each with the value of its field; \<open>TasksMax\<close> is never there for a \<open>PidsLimit\<close> of
  zero; and a translation that fails returns no property at all.
\<close>

theorem genV1_zero_value_semantics:
  assumes "\<not> emits (helper_properties E r) ''MemoryLimit''"
    and "\<not> emits (helper_properties E r) ''CPUShares''"
    and "\<not> emits (helper_properties E r) ''BlockIOWeight''"
    and "\<not> emits (helper_properties E r) ''TasksMax''"
  shows
    "(snd (genV1ResourcesProperties E r) = None \<longrightarrow>
        (emits (fst (genV1ResourcesProperties E r)) ''MemoryLimit'' \<longleftrightarrow> Memory r \<noteq> 0) \<and>
        (emits (fst (genV1ResourcesProperties E r)) ''CPUShares'' \<longleftrightarrow> CpuShares r \<noteq> 0) \<and>
        (emits (fst (genV1ResourcesProperties E r)) ''BlockIOWeight'' \<longleftrightarrow> BlkioWeight r \<noteq> 0) \<and>
        (emits (fst (genV1ResourcesProperties E r)) ''TasksMax'' \<longleftrightarrow>
           0 <s PidsLimit r \<or> PidsLimit r = - 1) \<and>
        (Memory r \<noteq> 0 \<longrightarrow>
           newProp ''MemoryLimit'' (PUint64 (Memory r)) \<in> set (fst (genV1ResourcesProperties E r))) \<and>
        (CpuShares r \<noteq> 0 \<longrightarrow>
           newProp ''CPUShares'' (PUint64 (CpuShares r)) \<in> set (fst (genV1ResourcesProperties E r))) \<and>
        (BlkioWeight r \<noteq> 0 \<longrightarrow>
           newProp ''BlockIOWeight'' (PUint64 (ucast (BlkioWeight r)))
             \<in> set (fst (genV1ResourcesProperties E r))) \<and>
        (0 <s PidsLimit r \<or> PidsLimit r = - 1 \<longrightarrow>
           newProp ''TasksMax'' (PUint64 (PidsLimit r)) \<in> set (fst (genV1ResourcesProperties E r)))) \<and>
     (PidsLimit r = 0 \<longrightarrow> \<not> emits (fst (genV1ResourcesProperties E r)) ''TasksMax'') \<and>
     (snd (genV1ResourcesProperties E r) \<noteq> None \<longrightarrow> fst (genV1ResourcesProperties E r) = [])"
proof (cases "generateDeviceProperties E (Devices r)")
  case (Inl err)
  then show ?thesis by (simp add: genV1ResourcesProperties_def emits_def)
next
  case dev: (Inr dps)
  show ?thesis
  proof (cases "addCpuset E (CpusetCpus r) (CpusetMems r)")
    case (Inl err)
    then show ?thesis using dev by (simp add: genV1ResourcesProperties_def emits_def)
  next
    case (Inr cps)
    have zero: "\<not> (0::64 word) <s 0" by simp
    have neq: "(0::64 word) \<noteq> - 1" by simp
    show ?thesis
      using assms dev Inr zero neq
      by (auto simp: genV1ResourcesProperties_def emits_def helper_properties_def newProp_def)
  qed
qed

theorem genV1_zero_value_semantics_witness:
  "\<not> emits (helper_properties quiet_host some_limits) ''MemoryLimit'' \<and>
   \<not> emits (helper_properties quiet_host some_limits) ''TasksMax'' \<and>
   snd (genV1ResourcesProperties quiet_host some_limits) = None \<and>
   emits (fst (genV1ResourcesProperties quiet_host some_limits)) ''MemoryLimit'' \<and>
   \<not> emits (fst (genV1ResourcesProperties quiet_host some_limits)) ''CPUShares'' \<and>
   \<not> emits (fst (genV1ResourcesProperties quiet_host some_limits)) ''BlockIOWeight'' \<and>
   emits (fst (genV1ResourcesProperties quiet_host some_limits)) ''TasksMax'' \<and>
   \<not> emits (fst (genV1ResourcesProperties quiet_host no_limits)) ''TasksMax''"
proof -
  have h: "helper_properties quiet_host some_limits = [newProp ''DeviceAllow'' (POther ''c 1:3 rwm'')]"
    by (simp add: helper_properties_def quiet_host_def some_limits_def no_limits_def)
  have h0: "helper_properties quiet_host no_limits = []"
    by (simp add: helper_properties_def quiet_host_def no_limits_def)
  have ok: "snd (genV1ResourcesProperties quiet_host some_limits) = None"
    by (simp add: genV1ResourcesProperties_def quiet_host_def)
  have ok0: "snd (genV1ResourcesProperties quiet_host no_limits) = None"
    by (simp add: genV1ResourcesProperties_def quiet_host_def)
  have v: "Memory some_limits = 512 \<and> CpuShares some_limits = 0 \<and> BlkioWeight some_limits = 0 \<and>
      PidsLimit some_limits = - 1 \<and> PidsLimit no_limits = 0"
    by (simp add: some_limits_def no_limits_def)
  show ?thesis
    using ok ok0 v
      genV1_zero_value_semantics [of quiet_host some_limits]
      genV1_zero_value_semantics [of quiet_host no_limits]
    by (simp add: h h0 emits_def newProp_def)
qed

subsection \<open>Translation errors\<close>

text \<open>
  Claim C7. When the translation of the device rules fails, or that of the cpuset
  lists, \<open>genV1ResourcesProperties\<close> returns the error with an empty property list.
  \<open>Set\<close>, given resources whose translation fails, makes no call and leaves the
  manager as it was; on a manager without externally supplied paths, and resources
  without a unified-resource value, it returns the translation error.
\<close>

theorem translation_error_before_any_call:
  "(generateDeviceProperties E (Devices r) = Inl err \<longrightarrow>
      genV1ResourcesProperties E r = ([], Some err)) \<and>
   (generateDeviceProperties E (Devices r) = Inr dps \<and>
    addCpuset E (CpusetCpus r) (CpusetMems r) = Inl err \<longrightarrow>
      genV1ResourcesProperties E r = ([], Some err)) \<and>
   (snd (genV1ResourcesProperties E r) = Some err \<longrightarrow>
      fst (genV1ResourcesProperties E r) = [] \<and>
      snd (Set E m r) = m \<and>
      (Paths (cgroups m) = None \<and> Unified r = None \<longrightarrow> fst (Set E m r) = Some err))"
  by (auto simp: genV1ResourcesProperties_def Set_def split: sum.splits)

theorem translation_error_before_any_call_witness:
  "generateDeviceProperties strict_host (Devices bad_limits) = Inl (External ''invalid device rule'') \<and>
   genV1ResourcesProperties strict_host bad_limits = ([], Some (External ''invalid device rule'')) \<and>
   Paths (cgroups running_manager) = None \<and> Unified bad_limits = None \<and>
   Set strict_host running_manager bad_limits =
     (Some (External ''invalid device rule''), running_manager)"
proof -
  have d: "generateDeviceProperties strict_host (Devices bad_limits) =
      Inl (External ''invalid device rule'')"
    by (simp add: strict_host_def bad_limits_def no_limits_def)
  have p: "Paths (cgroups running_manager) = None \<and> Unified bad_limits = None"
    by (simp add: running_manager_def fresh_manager_def container_def bad_limits_def no_limits_def)
  show ?thesis
    using d p
      translation_error_before_any_call [where E = strict_host and r = bad_limits
        and err = "External ''invalid device rule''" and m = running_manager and dps = "[]"]
    by (simp add: prod_eq_iff)
qed

subsection \<open>Set and the freezer\<close>








subsection \<open>Apply without a devices hierarchy\<close>





subsection \<open>The lock\<close>

lemma unlocked_run_iff:
  "unlocked_run m m' \<longleftrightarrow> (\<exists>new. calls m' = calls m @ new \<and> lock_free new)"
proof
  assume "unlocked_run m m'"
  then have "calls m' = calls m @ new_calls m m' \<and> lock_free (new_calls m m')"
    using append_take_drop_id [of "length (calls m)" "calls m'"]
    by (simp add: unlocked_run_def new_calls_def)
  then show "\<exists>new. calls m' = calls m @ new \<and> lock_free new" by blast
next
  assume "\<exists>new. calls m' = calls m @ new \<and> lock_free new"
  then show "unlocked_run m m'"
    by (auto simp: unlocked_run_def new_calls_def)
qed

lemma locked_run_iff:
  "locked_run m m' \<longleftrightarrow>
     (\<exists>mid. calls m' = calls m @ MuLock # mid @ [MuUnlock] \<and> lock_free mid)"
proof
  assume l: "locked_run m m'"
  then obtain rest where new: "new_calls m m' = MuLock # rest" and rest: "rest \<noteq> []"
    "last rest = MuUnlock" "lock_free (butlast rest)"
    by (auto simp: locked_run_def split: list.splits)
  have "calls m' = calls m @ new_calls m m'"
    using l append_take_drop_id [of "length (calls m)" "calls m'"]
    by (simp add: locked_run_def new_calls_def)
  then have "calls m' = calls m @ MuLock # butlast rest @ [MuUnlock]"
    using new rest(1,2) append_butlast_last_id [of rest] by simp
  then show "\<exists>mid. calls m' = calls m @ MuLock # mid @ [MuUnlock] \<and> lock_free mid"
    using rest(3) by blast
next
  assume "\<exists>mid. calls m' = calls m @ MuLock # mid @ [MuUnlock] \<and> lock_free mid"
  then show "locked_run m m'"
    by (auto simp: locked_run_def new_calls_def)
qed

lemma unlocked_run_refl: "unlocked_run m m"
  by (simp add: unlocked_run_iff lock_free_def)

lemma unlocked_run_trans: "unlocked_run a b \<Longrightarrow> unlocked_run b c \<Longrightarrow> unlocked_run a c"
  by (auto simp: unlocked_run_iff lock_free_def)

lemma unlocked_run_record:
  "ev \<noteq> MuLock \<Longrightarrow> ev \<noteq> MuUnlock \<Longrightarrow> unlocked_run m m' \<Longrightarrow> unlocked_run m (record_call ev m')"
  by (auto simp: unlocked_run_iff lock_free_def record_call_def)

lemma locked_runI:
  "unlocked_run (record_call MuLock m) m' \<Longrightarrow> locked_run m (record_call MuUnlock m')"
  by (auto simp: unlocked_run_iff locked_run_iff record_call_def)

lemma join_loop_unlocked: "unlocked_run m0 m \<Longrightarrow> unlocked_run m0 (snd (join_loop E names pid m))"
proof (induction names arbitrary: m)
  case Nil
  then show ?case by simp
next
  case (Cons name names)
  note step = unlocked_run_record [OF _ _ Cons.prems]
  have a: "\<And>path. unlocked_run m0 (record_call (CpusetApplyDir path pid) m)"
    by (rule step) simp_all
  have b: "\<And>path. unlocked_run m0 (record_call (MkdirAll path) m)"
    by (rule step) simp_all
  have c: "\<And>path. unlocked_run m0 (record_call (WriteCgroupProc path pid) (record_call (MkdirAll path) m))"
    by (rule unlocked_run_record [OF _ _ b]) simp_all
  show ?case
    using Cons.IH [OF Cons.prems] Cons.IH [OF a] Cons.IH [OF c] a b c
    by (simp add: record_call_def split: option.splits)
qed

lemma set_loop_unlocked: "unlocked_run m0 m \<Longrightarrow> unlocked_run m0 (snd (set_loop E names r m))"
proof (induction names arbitrary: m)
  case Nil
  then show ?case by simp
next
  case (Cons name names)
  have a: "\<And>path. unlocked_run m0 (record_call (SubsystemSet name path) m)"
    by (rule unlocked_run_record [OF _ _ Cons.prems]) simp_all
  show ?case
    using Cons.IH [OF Cons.prems] Cons.IH [OF a] a
    by (simp split: option.splits)
qed

lemma stats_loop_unlocked:
  "unlocked_run m0 m \<Longrightarrow> unlocked_run m0 (snd (stats_loop E names stats m))"
proof (induction names arbitrary: m stats)
  case Nil
  then show ?case by simp
next
  case (Cons name names)
  have a: "\<And>path. unlocked_run m0 (record_call (SubsystemGetStats name path) m)"
    by (rule unlocked_run_record [OF _ _ Cons.prems]) simp_all
  show ?case
    using Cons.IH [OF Cons.prems] Cons.IH [OF a] a
    by (simp split: option.splits sum.splits)
qed

lemma Freeze_unlocked: "unlocked_run m (snd (Freeze E m s))"
  by (auto simp: Freeze_def Let_def set_Freezer_def record_call_def unlocked_run_iff lock_free_def
        split: option.splits)

lemma GetFreezerState_unlocked: "unlocked_run m (snd (GetFreezerState E m))"
  by (auto simp: GetFreezerState_def record_call_def unlocked_run_iff lock_free_def
        split: option.splits)

lemma freeze_before_set_unlocked: "unlocked_run m (snd (freeze_before_set E m))"
proof (cases "SkipDevices (cgroups m)")
  case True
  then show ?thesis by (simp add: freeze_before_set_def unlocked_run_refl)
next
  case False
  obtain res m1 where g: "GetFreezerState E m = (res, m1)"
    by (cases "GetFreezerState E m") blast
  have u1: "unlocked_run m m1"
    using GetFreezerState_unlocked [where m = m and E = E] g by simp
  show ?thesis
  proof (cases res)
    case (Inl err)
    then show ?thesis using False g u1 by (simp add: freeze_before_set_def)
  next
    case (Inr st)
    obtain ferr m2 where f: "Freeze E m1 Frozen = (ferr, m2)"
      by (cases "Freeze E m1 Frozen") blast
    have u2: "unlocked_run m m2"
      using unlocked_run_trans [OF u1 Freeze_unlocked [where m = m1 and E = E and s = Frozen]] f
      by simp
    have u3: "\<And>err. unlocked_run m (record_call (Infof err) m2)"
      by (rule unlocked_run_record [OF _ _ u2]) simp_all
    show ?thesis
      using False g Inr f u2 u3 by (simp add: freeze_before_set_def split: option.splits)
  qed
qed

lemma Set_unlocked: "unlocked_run m (snd (Set E m r))"
proof -
  obtain props terr where t: "genV1ResourcesProperties E r = (props, terr)"
    by (cases "genV1ResourcesProperties E r") blast
  obtain res m1 where b: "freeze_before_set E m = (res, m1)"
    by (cases "freeze_before_set E m") blast
  have u1: "unlocked_run m m1"
    using freeze_before_set_unlocked [where m = m and E = E] b by simp
  let ?m2 = "record_call (SetUnitProperties (getUnitName E (cgroups m1)) props) m1"
  have u2: "unlocked_run m ?m2"
    by (rule unlocked_run_record [OF _ _ u1]) simp_all
  have u3: "\<And>s. unlocked_run m (snd (Freeze E ?m2 s))"
    by (rule unlocked_run_trans [OF u2 Freeze_unlocked])
  have u4: "\<And>s. unlocked_run m (snd (set_loop E legacySubsystems r (snd (Freeze E ?m2 s))))"
    by (rule set_loop_unlocked [OF u3])
  show ?thesis
    using t b u1 u3 u4
    by (simp add: Set_def Let_def unlocked_run_refl split: option.splits sum.splits)
qed

lemma apply_external_paths_unlocked:
  "unlocked_run m0 m \<Longrightarrow> unlocked_run m0 (snd (apply_external_paths E cpaths pid m))"
  by (auto simp: apply_external_paths_def Let_def record_call_def unlocked_run_iff lock_free_def
        split: sum.splits)

lemma apply_unit_unlocked: "unlocked_run m0 m \<Longrightarrow> unlocked_run m0 (snd (apply_unit E pid m))"
proof -
  assume u: "unlocked_run m0 m"
  let ?unit = "getUnitName E (cgroups m)"
  let ?m1 = "record_call (StartUnit ?unit (start_properties (cgroups m) ?unit pid)) m"
  have u1: "unlocked_run m0 ?m1"
    by (rule unlocked_run_record [OF _ _ u]) simp_all
  have u2: "\<And>ps. unlocked_run m0 (?m1\<lparr>paths := ps\<rparr>)"
    using u1 by (simp add: unlocked_run_iff)
  have u3: "\<And>ps. unlocked_run m0 (snd (joinCgroups E (?m1\<lparr>paths := ps\<rparr>) pid))"
    unfolding joinCgroups_def by (rule join_loop_unlocked [OF u2])
  show ?thesis
    using u1 u3 by (simp add: apply_unit_def Let_def split: option.splits sum.splits)
qed

text \<open>
  \<open>GetPids\<close> lists the processes and \<open>Freeze\<close> freezes the container without a call on
  the mutex.
\<close>

theorem lock_not_taken_counterexample:
  "fst (GetPids quiet_host listing_manager) = ([1, 2], None) \<and>
   calls (snd (GetPids quiet_host listing_manager)) =
     [CgroupsGetPids ''/sys/fs/cgroup/devices/ctr.scope''] \<and>
   MuLock \<notin> set (calls (snd (GetPids quiet_host listing_manager))) \<and>
   fst (Freeze quiet_host running_manager Frozen) = None \<and>
   calls (snd (Freeze quiet_host running_manager Frozen)) =
     [FreezerSet ''/sys/fs/cgroup/freezer/ctr.scope'' Frozen] \<and>
   MuLock \<notin> set (calls (snd (Freeze quiet_host running_manager Frozen)))"
  by (simp add: GetPids_def Freeze_def Let_def set_Freezer_def record_call_def quiet_host_def
        listing_manager_def running_manager_def fresh_manager_def)

text \<open>
  Claim C9, as the code has it. \<open>Path\<close>, \<open>GetPaths\<close> and \<open>GetStats\<close> take the lock first
  and release it last. \<open>Apply\<close> does so unless a unified-resource value is set, and
  \<open>Destroy\<close> unless the paths were supplied externally; in those cases they return
  before the lock, leaving the manager as it was. \<open>GetPids\<close>, \<open>GetAllPids\<close>, \<open>Freeze\<close>,
  \<open>GetFreezerState\<close> and \<open>Set\<close> never touch the lock.
\<close>

theorem manager_locking:
  "locked_run m (snd (Path m subsys)) \<and>
   locked_run m (snd (GetPaths m)) \<and>
   locked_run m (snd (GetStats E m)) \<and>
   (Unified (cg_Resources (cgroups m)) = None \<longrightarrow> locked_run m (snd (Apply E m pid))) \<and>
   (Unified (cg_Resources (cgroups m)) \<noteq> None \<longrightarrow> snd (Apply E m pid) = m) \<and>
   (Paths (cgroups m) = None \<longrightarrow> locked_run m (snd (Destroy E m))) \<and>
   (Paths (cgroups m) \<noteq> None \<longrightarrow> snd (Destroy E m) = m) \<and>
   unlocked_run m (snd (GetPids E m)) \<and>
   unlocked_run m (snd (GetAllPids E m)) \<and>
   unlocked_run m (snd (Freeze E m state)) \<and>
   unlocked_run m (snd (GetFreezerState E m)) \<and>
   unlocked_run m (snd (Set E m r))"
proof -
  have path: "locked_run m (snd (Path m subsys))" "locked_run m (snd (GetPaths m))"
    by (simp_all add: Path_def GetPaths_def locked_runI unlocked_run_refl)
  have "unlocked_run (record_call MuLock m)
      (snd (stats_loop E legacySubsystems [] (record_call MuLock m)))"
    by (rule stats_loop_unlocked [OF unlocked_run_refl])
  then have stats: "locked_run m (snd (GetStats E m))"
    by (simp add: GetStats_def case_prod_unfold locked_runI)
  have unit: "unlocked_run (record_call MuLock m) (snd (apply_unit E pid (record_call MuLock m)))"
    by (rule apply_unit_unlocked [OF unlocked_run_refl])
  have ext: "\<And>cpaths. unlocked_run (record_call MuLock m)
      (snd (apply_external_paths E cpaths pid (record_call MuLock m)))"
    by (rule apply_external_paths_unlocked [OF unlocked_run_refl])
  have app: "Unified (cg_Resources (cgroups m)) = None \<longrightarrow> locked_run m (snd (Apply E m pid))"
    using locked_runI [OF unit] locked_runI [OF ext]
    by (simp add: Apply_def case_prod_unfold split: option.splits)
  have app': "Unified (cg_Resources (cgroups m)) \<noteq> None \<longrightarrow> snd (Apply E m pid) = m"
    by (simp add: Apply_def)
  have destroy: "Paths (cgroups m) = None \<longrightarrow> locked_run m (snd (Destroy E m))"
    by (auto simp: Destroy_def Let_def record_call_def locked_run_iff lock_free_def)
  have destroy': "Paths (cgroups m) \<noteq> None \<longrightarrow> snd (Destroy E m) = m"
    by (simp add: Destroy_def)
  have pids: "unlocked_run m (snd (GetPids E m))" "unlocked_run m (snd (GetAllPids E m))"
    by (auto simp: GetPids_def GetAllPids_def record_call_def unlocked_run_iff lock_free_def
          split: option.splits)
  show ?thesis
    using path stats app app' destroy destroy' pids
      Freeze_unlocked [where m = m and E = E and s = state]
      GetFreezerState_unlocked [where m = m and E = E] Set_unlocked [where m = m and E = E and r = r]
    by simp
qed

theorem manager_locking_witness:
  "Unified (cg_Resources (cgroups running_manager)) = None \<and>
   Paths (cgroups running_manager) = None \<and>
   locked_run running_manager (snd (Apply quiet_host running_manager 7)) \<and>
   locked_run running_manager (snd (Destroy quiet_host running_manager)) \<and>
   unlocked_run running_manager (snd (Set quiet_host running_manager no_limits))"
proof -
  have u: "Unified (cg_Resources (cgroups running_manager)) = None"
    by (simp add: running_manager_def fresh_manager_def container_def no_limits_def)
  have p: "Paths (cgroups running_manager) = None"
    by (simp add: running_manager_def fresh_manager_def container_def)
  show ?thesis
    using u p manager_locking [where m = running_manager and E = quiet_host and pid = 7 and r = no_limits]
    by simp
qed

end
